theory Spec2Isabelle
  imports Main "HOL-Library.Sublist"
begin

section \<open>Python strings and exceptions\<close>

text \<open>
  A Python \<open>str\<close> is modelled as the list of the bytes of its UTF-8 encoding. The
  operations used by \<open>tools.py\<close> (concatenation, equality, emptiness, \<open>in\<close>,
  \<open>replace\<close>, \<open>split('/')\<close>) give the same result on the encoding as on the code
  points, because UTF-8 is self-synchronising. The pictographs of the messages are written
  as their bytes.
\<close>

definition nl :: string where "nl = [CHR 0x0A]"
definition dq :: string where "dq = [CHR 0x22]"
definition sq :: string where "sq = [CHR 0x27]"

definition check_mark :: string where "check_mark = [CHR 0xE2, CHR 0x9C, CHR 0x85]"
definition cross_mark :: string where "cross_mark = [CHR 0xE2, CHR 0x9D, CHR 0x8C]"
definition heavy_check :: string where
  "heavy_check = [CHR 0xE2, CHR 0x9C, CHR 0x94, CHR 0xEF, CHR 0xB8, CHR 0x8F]"
definition warning_sign :: string where
  "warning_sign = [CHR 0xE2, CHR 0x9A, CHR 0xA0, CHR 0xEF, CHR 0xB8, CHR 0x8F]"
definition wastebasket :: string where
  "wastebasket = [CHR 0xF0, CHR 0x9F, CHR 0x97, CHR 0x91, CHR 0xEF, CHR 0xB8, CHR 0x8F]"
definition memo :: string where "memo = [CHR 0xF0, CHR 0x9F, CHR 0x93, CHR 0x9D]"
definition clipboard :: string where "clipboard = [CHR 0xF0, CHR 0x9F, CHR 0x93, CHR 0x8B]"
definition broom :: string where "broom = [CHR 0xF0, CHR 0x9F, CHR 0xA7, CHR 0xB9]"

text \<open>
  The exceptions that the operations of the module can raise, each with the text that
  \<open>str(e)\<close> gives. All of them are subclasses of \<open>Exception\<close>;
  \<open>SMTPAuthenticationError\<close> is a subclass of \<open>SMTPException\<close>, and
  \<open>SMTPException\<close> stands for every other subclass of it.
\<close>

datatype exn_class =
  IndexError | AttributeError | NameError | FileNotFoundError | PermissionError
  | UnicodeDecodeError | SMTPAuthenticationError | SMTPException | OtherException

datatype pyexn = Exn exn_class string

fun exn_cls :: "pyexn \<Rightarrow> exn_class" where
  "exn_cls (Exn c m) = c"

fun str_exn :: "pyexn \<Rightarrow> string" where
  "str_exn (Exn c m) = m"

text \<open>Truth value of an \<open>Optional[str]\<close>: \<open>None\<close> and the empty string are false.\<close>

fun truthy :: "string option \<Rightarrow> bool" where
  "truthy None = False"
| "truthy (Some s) = (s \<noteq> [])"

text \<open>\<open>str(n)\<close> for a non-negative integer.\<close>

definition digit_char :: "nat \<Rightarrow> char" where
  "digit_char d = ''0123456789'' ! d"

function str_nat :: "nat \<Rightarrow> string" where
  "str_nat n = (if n < 10 then [digit_char n] else str_nat (n div 10) @ [digit_char (n mod 10)])"
  by pat_completeness auto
termination
  by (relation "measure id") auto

declare str_nat.simps [simp del]

text \<open>\<open>sep.join(xs)\<close>.\<close>

fun join :: "string \<Rightarrow> string list \<Rightarrow> string" where
  "join sep [] = []"
| "join sep [x] = x"
| "join sep (x # y # ys) = x @ sep @ join sep (y # ys)"

section \<open>The to-do list\<close>

text \<open>
  An entry of \<open>todo_list\<close> is the dictionary \<open>{"task": ..., "done": ...}\<close>. Every
  entry is a dictionary of its own (built by \<open>add\<close>), so no two entries are aliases.
\<close>

record todo_item =
  item_task :: string
  item_done :: bool

text \<open>
  The loop \<open>for t in todo_list: if t["task"] == task: ...; return\<close> stops at the first
  entry whose task is equal to the argument.
\<close>

fun find_task :: "string \<Rightarrow> todo_item list \<Rightarrow> todo_item option" where
  "find_task tk [] = None"
| "find_task tk (t # ts) = (if item_task t = tk then Some t else find_task tk ts)"

text \<open>
  The \<open>complete\<close> loop: \<open>t["done"] = True\<close> on the first entry with that task;
  \<open>None\<close> when the loop ends without a match.
\<close>

fun complete_first :: "string \<Rightarrow> todo_item list \<Rightarrow> todo_item list option" where
  "complete_first tk [] = None"
| "complete_first tk (t # ts) =
     (if item_task t = tk then Some (t\<lparr>item_done := True\<rparr> # ts)
      else map_option ((#) t) (complete_first tk ts))"

definition todo_line :: "nat \<times> todo_item \<Rightarrow> string" where
  "todo_line p =
     str_nat (fst p + 1) @ ''. ['' @ (if item_done (snd p) then heavy_check else cross_mark)
       @ ''] '' @ item_task (snd p)"

text \<open>
  The body of the \<open>try\<close> block of \<open>manage_todo\<close>: the new list and the value
  returned, or the exception raised. \<open>todo_list.remove(t)\<close> deletes the first entry
  equal to \<open>t\<close>.
\<close>

definition manage_todo_body ::
  "todo_item list \<Rightarrow> string \<Rightarrow> string option \<Rightarrow> todo_item list \<times> (pyexn + string)" where
  "manage_todo_body todo_list action task =
    (if action = ''add'' then
       (if \<not> truthy task then (todo_list, Inr ''Please specify a task to add.'')
        else (todo_list @ [\<lparr>item_task = the task, item_done = False\<rparr>],
              Inr (check_mark @ '' Task added: '' @ sq @ the task @ sq)))
     else if action = ''remove'' then
       (if \<not> truthy task then (todo_list, Inr ''Please specify a task to remove.'')
        else (case find_task (the task) todo_list of
                Some t \<Rightarrow> (remove1 t todo_list,
                           Inr (wastebasket @ '' Task removed: '' @ sq @ the task @ sq))
              | None \<Rightarrow> (todo_list,
                         Inr (warning_sign @ '' Task not found: '' @ sq @ the task @ sq))))
     else if action = ''complete'' then
       (if \<not> truthy task then (todo_list, Inr ''Please specify a task to mark as completed.'')
        else (case complete_first (the task) todo_list of
                Some l \<Rightarrow> (l, Inr (check_mark @ '' Task completed: '' @ sq @ the task @ sq))
              | None \<Rightarrow> (todo_list,
                         Inr (warning_sign @ '' Task not found: '' @ sq @ the task @ sq))))
     else if action = ''list'' then
       (if todo_list = [] then (todo_list, Inr (memo @ '' Your to-do list is empty.''))
        else (todo_list,
              Inr (clipboard @ '' Your To-Do List:'' @ nl
                   @ join nl (map todo_line (enumerate 0 todo_list)))))
     else if action = ''clear'' then
       ([], Inr (broom @ '' All tasks cleared.''))
     else
       (todo_list,
        Inr (warning_sign @ '' Invalid action. Use '' @ sq @ ''add'' @ sq @ '', '' @ sq
             @ ''remove'' @ sq @ '', '' @ sq @ ''list'' @ sq @ '', '' @ sq @ ''complete'' @ sq
             @ '', or '' @ sq @ ''clear'' @ sq @ ''.'')))"

text \<open>
  \<open>manage_todo\<close>: the body inside \<open>try\<close>, with \<open>except Exception as e\<close> turning
  an exception into the failure message.
\<close>

definition manage_todo ::
  "todo_item list \<Rightarrow> string \<Rightarrow> string option \<Rightarrow> todo_item list \<times> (pyexn + string)" where
  "manage_todo todo_list action task =
    (case manage_todo_body todo_list action task of
       (l, Inl e) \<Rightarrow> (l, Inr (cross_mark @ '' Error managing to-do list: '' @ str_exn e))
     | (l, Inr m) \<Rightarrow> (l, Inr m))"

section \<open>String operations of the registrar\<close>

text \<open>\<open>sub in s\<close> on strings: \<open>sub\<close> occurs in \<open>s\<close> as a contiguous run.\<close>

definition py_in :: "string \<Rightarrow> string \<Rightarrow> bool" where
  "py_in sub s = sublist sub s"

text \<open>
  \<open>s.replace(old, new)\<close>: every occurrence of \<open>old\<close>, found from left to right
  without overlap, becomes \<open>new\<close>; an empty \<open>old\<close> matches before every character
  and at the end.
\<close>

function str_replace :: "string \<Rightarrow> string \<Rightarrow> string \<Rightarrow> string" where
  "str_replace [] old new = (if old = [] then new else [])"
| "str_replace (c # cs) old new =
     (if old = [] then new @ c # str_replace cs old new
      else if prefix old (c # cs) then new @ str_replace (drop (length old) (c # cs)) old new
      else c # str_replace cs old new)"
  by pat_completeness auto
termination
  by (relation "measure (\<lambda>(s, old, new). length s)") auto

text \<open>\<open>s.split(d)\<close> for a separator of one character: never an empty list.\<close>

fun str_split :: "char \<Rightarrow> string \<Rightarrow> string list" where
  "str_split d [] = [[]]"
| "str_split d (c # cs) =
     (if c = d then [] # str_split d cs
      else (case str_split d cs of
              [] \<Rightarrow> [[c]]
            | w # ws \<Rightarrow> (c # w) # ws))"

text \<open>\<open>xs[i]\<close> for \<open>i \<ge> 0\<close>: \<open>IndexError\<close> out of range.\<close>

definition list_index :: "'a list \<Rightarrow> nat \<Rightarrow> pyexn + 'a" where
  "list_index xs i =
     (if i < length xs then Inr (xs ! i) else Inl (Exn IndexError ''list index out of range''))"

text \<open>\<open>str(x)\<close> of an \<open>Optional[str]\<close>, as an f-string renders it.\<close>

fun str_opt :: "string option \<Rightarrow> string" where
  "str_opt None = ''None''"
| "str_opt (Some s) = s"

section \<open>The registrar: \<open>create_tool\<close>\<close>

text \<open>\<open>api_url or 'https://example.com/api'\<close>.\<close>

definition url_value :: "string option \<Rightarrow> string" where
  "url_value api_url = (if truthy api_url then the api_url else ''https://example.com/api'')"

text \<open>
  \<open>api_host or api_url.split('/')[2]\<close>: the right operand is evaluated only when
  \<open>api_host\<close> is \<open>None\<close> or empty; \<open>None.split\<close> raises \<open>AttributeError\<close>.
\<close>

definition host_value :: "string option \<Rightarrow> string option \<Rightarrow> pyexn + string" where
  "host_value api_url api_host =
     (if truthy api_host then Inr (the api_host)
      else (case api_url of
              None \<Rightarrow> Inl (Exn AttributeError
                        (sq @ ''NoneType'' @ sq @ '' object has no attribute '' @ sq @ ''split'' @ sq))
            | Some u \<Rightarrow> list_index (str_split CHR ''/'' u) 2))"

text \<open>The template of the generated definition, with a host value already computed.\<close>

definition render_template ::
  "string \<Rightarrow> string \<Rightarrow> string \<Rightarrow> string \<Rightarrow> string \<Rightarrow> string" where
  "render_template function_name purpose url key host =
     nl @ ''@function_tool()'' @ nl
     @ ''async def '' @ function_name @ ''(context: RunContext, query: str) -> str:'' @ nl
     @ ''    '' @ dq @ dq @ dq @ nl
     @ ''    '' @ purpose @ nl
     @ ''    '' @ dq @ dq @ dq @ nl
     @ ''    import requests'' @ nl
     @ ''    url = '' @ dq @ url @ dq @ nl
     @ ''    headers = {'' @ nl
     @ ''        '' @ dq @ ''X-RapidAPI-Key'' @ dq @ '': os.getenv('' @ dq @ key @ dq @ ''),'' @ nl
     @ ''        '' @ dq @ ''X-RapidAPI-Host'' @ dq @ '': '' @ dq @ host @ dq @ nl
     @ ''    }'' @ nl
     @ ''    try:'' @ nl
     @ ''        response = requests.get(url, headers=headers)'' @ nl
     @ ''        data = response.json()'' @ nl
     @ ''        return str(data)'' @ nl
     @ ''    except Exception as e:'' @ nl
     @ ''        return f'' @ dq @ cross_mark @ '' Error fetching data: {e}'' @ dq @ nl"

text \<open>
  The f-string \<open>function_code\<close>: its fields are evaluated from left to right, and only
  the host expression can raise.
\<close>

definition function_code ::
  "string \<Rightarrow> string \<Rightarrow> string option \<Rightarrow> string option \<Rightarrow> string option \<Rightarrow> pyexn + string" where
  "function_code function_name purpose api_url api_host api_key_env =
     (case host_value api_url api_host of
        Inl e \<Rightarrow> Inl e
      | Inr host \<Rightarrow>
          Inr (render_template function_name purpose (url_value api_url)
                 (str_opt api_key_env) host))"

text \<open>
  The two files of the working directory. A file has its text and the two permissions
  that \<open>open\<close> checks; \<open>None\<close> is a file that does not exist. The text of a file
  is its bytes; files are opened in text mode with UTF-8 as the encoding and \<open>\n\<close> as
  the line separator of the platform, so that writing stores the bytes of the string as
  they are. A missing file can always be created.
\<close>

record pyfile =
  content :: string
  readable :: bool
  writable :: bool

record filesystem =
  tools_py :: "pyfile option"
  agent_py :: "pyfile option"

definition permission_denied :: "string \<Rightarrow> pyexn" where
  "permission_denied path =
     Exn PermissionError (''[Errno 13] Permission denied: '' @ sq @ path @ sq)"

definition no_such_file :: "string \<Rightarrow> pyexn" where
  "no_such_file path =
     Exn FileNotFoundError (''[Errno 2] No such file or directory: '' @ sq @ path @ sq)"

text \<open>\<open>open(path, "a")\<close>: creates the file when it is missing.\<close>

definition open_append :: "pyfile option \<Rightarrow> string \<Rightarrow> pyexn + pyfile" where
  "open_append f path =
     (case f of
        None \<Rightarrow> Inr \<lparr>content = [], readable = True, writable = True\<rparr>
      | Some g \<Rightarrow> if writable g then Inr g else Inl (permission_denied path))"

text \<open>
  Reading a text file decodes its bytes as UTF-8 and then translates the line ends.
  \<open>utf8_step\<close> looks at the code point that starts the bytes: \<open>Inr (n, rest)\<close> when
  its \<open>n\<close> bytes are well formed, \<open>Inl (k, reason)\<close> when the decoder gives up, having
  looked at \<open>k\<close> bytes. Overlong forms, surrogates and code points beyond U+10FFFF are
  refused at the second byte.
\<close>

definition is_continuation :: "char \<Rightarrow> bool" where
  "is_continuation c = (0x80 \<le> (of_char c :: nat) \<and> (of_char c :: nat) < 0xC0)"

definition utf8_step :: "string \<Rightarrow> (nat \<times> string) + (nat \<times> string)" where
  "utf8_step s =
     (case s of
        [] \<Rightarrow> Inr (0, [])
      | c # cs \<Rightarrow>
         (let b = (of_char c :: nat) in
          if b < 0x80 then Inr (1, cs)
          else if b < 0xC2 then Inl (1, ''invalid start byte'')
          else if b < 0xE0 then
            (case cs of
               [] \<Rightarrow> Inl (1, ''unexpected end of data'')
             | c2 # r2 \<Rightarrow>
                 if \<not> is_continuation c2 then Inl (1, ''invalid continuation byte'')
                 else Inr (2, r2))
          else if b < 0xF0 then
            (case cs of
               [] \<Rightarrow> Inl (1, ''unexpected end of data'')
             | c2 # r2 \<Rightarrow>
                 if \<not> is_continuation c2
                    \<or> (if (of_char c2 :: nat) < 0xA0 then b = 0xE0 else b = 0xED)
                 then Inl (1, ''invalid continuation byte'')
                 else (case r2 of
                         [] \<Rightarrow> Inl (2, ''unexpected end of data'')
                       | c3 # r3 \<Rightarrow>
                           if \<not> is_continuation c3 then Inl (2, ''invalid continuation byte'')
                           else Inr (3, r3)))
          else if b < 0xF5 then
            (case cs of
               [] \<Rightarrow> Inl (1, ''unexpected end of data'')
             | c2 # r2 \<Rightarrow>
                 if \<not> is_continuation c2
                    \<or> (if (of_char c2 :: nat) < 0x90 then b = 0xF0 else b = 0xF4)
                 then Inl (1, ''invalid continuation byte'')
                 else (case r2 of
                         [] \<Rightarrow> Inl (2, ''unexpected end of data'')
                       | c3 # r3 \<Rightarrow>
                           if \<not> is_continuation c3 then Inl (2, ''invalid continuation byte'')
                           else (case r3 of
                                   [] \<Rightarrow> Inl (3, ''unexpected end of data'')
                                 | c4 # r4 \<Rightarrow>
                                     if \<not> is_continuation c4
                                     then Inl (3, ''invalid continuation byte'')
                                     else Inr (4, r4))))
          else Inl (1, ''invalid start byte'')))"

text \<open>
  The first decoding error of the bytes, as the error object holds it: the offset where
  the bad sequence starts, the offset where it stops, and the reason; \<open>None\<close> when
  all bytes decode.
\<close>

function utf8_scan :: "nat \<Rightarrow> string \<Rightarrow> (nat \<times> nat \<times> string) option" where
  "utf8_scan pos [] = None"
| "utf8_scan pos (c # cs) =
     (case utf8_step (c # cs) of
        Inl (k, reason) \<Rightarrow> Some (pos, pos + k, reason)
      | Inr (n, rest) \<Rightarrow> utf8_scan (pos + n) rest)"
  by pat_completeness auto
termination
  by (relation "measure (\<lambda>(pos, s). length s)")
    (auto simp: utf8_step_def Let_def split: list.splits if_splits)

text \<open>The bytes are the encoding of a \<open>str\<close>.\<close>

definition well_formed :: "string \<Rightarrow> bool" where
  "well_formed s = (utf8_scan 0 s = None)"

definition hex_byte :: "char \<Rightarrow> string" where
  "hex_byte c =
     [''0123456789abcdef'' ! ((of_char c :: nat) div 16),
      ''0123456789abcdef'' ! ((of_char c :: nat) mod 16)]"

text \<open>\<open>str(e)\<close> of the \<open>UnicodeDecodeError\<close> raised for the bytes.\<close>

definition decode_error :: "string \<Rightarrow> nat \<times> nat \<times> string \<Rightarrow> pyexn" where
  "decode_error bytes err =
     (case err of
        (start, stop, reason) \<Rightarrow>
          Exn UnicodeDecodeError
            (if stop = start + 1
             then sq @ ''utf-8'' @ sq @ '' codec can'' @ sq @ ''t decode byte 0x''
                  @ hex_byte (bytes ! start) @ '' in position '' @ str_nat start
                  @ '': '' @ reason
             else sq @ ''utf-8'' @ sq @ '' codec can'' @ sq @ ''t decode bytes in position ''
                  @ str_nat start @ ''-'' @ str_nat (stop - 1) @ '': '' @ reason))"

text \<open>
  Universal newlines, as text mode applies them on reading: \<open>\r\n\<close> and a lone
  \<open>\r\<close> both become \<open>\n\<close>.
\<close>

fun universal_newlines :: "string \<Rightarrow> string" where
  "universal_newlines [] = []"
| "universal_newlines [c] = (if c = CHR 0x0D then [CHR 0x0A] else [c])"
| "universal_newlines (c # d # r) =
     (if c = CHR 0x0D then
        (if d = CHR 0x0A then CHR 0x0A # universal_newlines r
         else CHR 0x0A # universal_newlines (d # r))
      else c # universal_newlines (d # r))"

definition decode_text :: "string \<Rightarrow> pyexn + string" where
  "decode_text bytes =
     (case utf8_scan 0 bytes of
        Some err \<Rightarrow> Inl (decode_error bytes err)
      | None \<Rightarrow> Inr (universal_newlines bytes))"

text \<open>\<open>open(path, "r")\<close> followed by \<open>read()\<close>.\<close>

definition open_read :: "pyfile option \<Rightarrow> string \<Rightarrow> pyexn + string" where
  "open_read f path =
     (case f of
        None \<Rightarrow> Inl (no_such_file path)
      | Some g \<Rightarrow> if readable g then decode_text (content g) else Inl (permission_denied path))"

text \<open>\<open>open(path, "w")\<close>: creates the file when it is missing, empties it otherwise.\<close>

definition open_write :: "pyfile option \<Rightarrow> string \<Rightarrow> pyexn + pyfile" where
  "open_write f path =
     (case f of
        None \<Rightarrow> Inr \<lparr>content = [], readable = True, writable = True\<rparr>
      | Some g \<Rightarrow> if writable g then Inr (g\<lparr>content := []\<rparr>) else Inl (permission_denied path))"

text \<open>The two guarded substitutions on the text of \<open>agent.py\<close>.\<close>

definition insert_import :: "string \<Rightarrow> string \<Rightarrow> string" where
  "insert_import function_name agent_code =
     (if \<not> py_in (''from tools import '' @ function_name) agent_code
      then str_replace agent_code ''from tools import''
             (''from tools import '' @ function_name @ '','')
      else agent_code)"

definition insert_in_tools_list :: "string \<Rightarrow> string \<Rightarrow> string" where
  "insert_in_tools_list function_name agent_code =
     (if \<not> py_in function_name agent_code
      then str_replace agent_code ''tools=[''
             (''tools=['' @ nl @ ''                '' @ function_name @ '','')
      else agent_code)"

definition patch_roster :: "string \<Rightarrow> string \<Rightarrow> string" where
  "patch_roster function_name agent_code =
     insert_in_tools_list function_name (insert_import function_name agent_code)"

definition success_message :: "string \<Rightarrow> string" where
  "success_message function_name =
     check_mark @ '' Function `'' @ function_name @ ''` created and registered successfully.''"

text \<open>
  The body of the \<open>try\<close> block of \<open>create_tool\<close>. It gives the states of the file
  system in the order in which they arise (the initial state first, then the state after
  each \<open>open\<close> for writing and after each \<open>write\<close>), and the value returned or the
  exception raised.
\<close>

definition create_tool_body ::
  "filesystem \<Rightarrow> string \<Rightarrow> string \<Rightarrow> string option \<Rightarrow> string option \<Rightarrow> string option
     \<Rightarrow> filesystem list \<times> (pyexn + string)" where
  "create_tool_body fs function_name purpose api_url api_host api_key_env =
     (case function_code function_name purpose api_url api_host api_key_env of
        Inl e \<Rightarrow> ([fs], Inl e)
      | Inr code \<Rightarrow>
         (case open_append (tools_py fs) ''tools.py'' of
            Inl e \<Rightarrow> ([fs], Inl e)
          | Inr f \<Rightarrow>
             (let fs1 = fs\<lparr>tools_py := Some f\<rparr>;
                  fs2 = fs\<lparr>tools_py := Some (f\<lparr>content := content f @ code @ nl\<rparr>)\<rparr>
              in (case open_read (agent_py fs2) ''agent.py'' of
                    Inl e \<Rightarrow> ([fs, fs1, fs2], Inl e)
                  | Inr agent_code \<Rightarrow>
                     (let patched = patch_roster function_name agent_code
                      in (case open_write (agent_py fs2) ''agent.py'' of
                            Inl e \<Rightarrow> ([fs, fs1, fs2], Inl e)
                          | Inr g \<Rightarrow>
                             ([fs, fs1, fs2, fs2\<lparr>agent_py := Some g\<rparr>,
                               fs2\<lparr>agent_py := Some (g\<lparr>content := patched\<rparr>)\<rparr>],
                              Inr (success_message function_name))))))))"

text \<open>
  \<open>create_tool\<close>: the file system left behind and the value returned;
  \<open>except Exception as e\<close> turns an exception into the failure message.
\<close>

definition create_tool ::
  "filesystem \<Rightarrow> string \<Rightarrow> string \<Rightarrow> string option \<Rightarrow> string option \<Rightarrow> string option
     \<Rightarrow> filesystem \<times> (pyexn + string)" where
  "create_tool fs function_name purpose api_url api_host api_key_env =
     (case create_tool_body fs function_name purpose api_url api_host api_key_env of
        (trace, Inl e) \<Rightarrow>
          (last trace, Inr (cross_mark @ '' Failed to create function: '' @ str_exn e))
      | (trace, Inr m) \<Rightarrow> (last trace, Inr m))"

section \<open>The notes list\<close>

text \<open>
  \<open>manage_notes\<close> reads the module global \<open>notes_memory\<close>. The state of that name is
  \<open>None\<close> when the module has no binding for it (reading it raises \<open>NameError\<close>) and
  \<open>Some l\<close> when it is bound to the list \<open>l\<close>.
\<close>

definition notes_memory_undefined :: pyexn where
  "notes_memory_undefined =
     Exn NameError (''name '' @ sq @ ''notes_memory'' @ sq @ '' is not defined'')"

definition note_line :: "nat \<times> string \<Rightarrow> string" where
  "note_line p = str_nat (fst p + 1) @ ''. '' @ snd p"

definition manage_notes_body ::
  "string list option \<Rightarrow> string \<Rightarrow> string option
     \<Rightarrow> string list option \<times> (pyexn + string)" where
  "manage_notes_body notes_memory action note =
    (if action = ''add'' then
       (if \<not> truthy note then (notes_memory, Inr ''Please specify a note to add.'')
        else (case notes_memory of
                None \<Rightarrow> (notes_memory, Inl notes_memory_undefined)
              | Some l \<Rightarrow> (Some (l @ [the note]),
                           Inr (check_mark @ '' Note added: '' @ sq @ the note @ sq))))
     else if action = ''remove'' then
       (if \<not> truthy note then (notes_memory, Inr ''Please specify a note to remove.'')
        else (case notes_memory of
                None \<Rightarrow> (notes_memory, Inl notes_memory_undefined)
              | Some l \<Rightarrow>
                  if the note \<in> set l
                  then (Some (remove1 (the note) l),
                        Inr (wastebasket @ '' Note removed: '' @ sq @ the note @ sq))
                  else (notes_memory,
                        Inr (warning_sign @ '' Note not found: '' @ sq @ the note @ sq))))
     else if action = ''list'' then
       (case notes_memory of
          None \<Rightarrow> (notes_memory, Inl notes_memory_undefined)
        | Some l \<Rightarrow>
            if l = [] then (notes_memory, Inr (memo @ '' Your to-do list is empty.''))
            else (notes_memory,
                  Inr (clipboard @ '' Your notes:'' @ nl
                       @ join nl (map note_line (enumerate 0 l)))))
     else if action = ''clear'' then
       (case notes_memory of
          None \<Rightarrow> (notes_memory, Inl notes_memory_undefined)
        | Some l \<Rightarrow> (Some [], Inr (broom @ '' All notes cleared.'')))
     else
       (notes_memory,
        Inr (warning_sign @ '' Invalid action. Use '' @ sq @ ''add'' @ sq @ '', '' @ sq
             @ ''remove'' @ sq @ '', '' @ sq @ ''list'' @ sq @ '', or '' @ sq @ ''clear'' @ sq
             @ ''.'')))"

definition manage_notes ::
  "string list option \<Rightarrow> string \<Rightarrow> string option
     \<Rightarrow> string list option \<times> (pyexn + string)" where
  "manage_notes notes_memory action note =
    (case manage_notes_body notes_memory action note of
       (g, Inl e) \<Rightarrow> (g, Inr (cross_mark @ '' Error managing notes: '' @ str_exn e))
     | (g, Inr m) \<Rightarrow> (g, Inr m))"

text \<open>
  The module as it is loaded: \<open>tools.py\<close> has no assignment to \<open>notes_memory\<close> at
  module level and no function of it declares the name \<open>global\<close>, so the name has no
  binding; \<open>todo_list = []\<close> is its only module-level list.
\<close>

definition module_notes_memory :: "string list option" where
  "module_notes_memory = None"

definition module_todo_list :: "todo_item list" where
  "module_todo_list = []"

section \<open>Weather and web search\<close>

text \<open>
  \<open>s.strip()\<close> removes the white space of Python (the code points for which
  \<open>isspace\<close> holds) from both ends; here they are as UTF-8 byte sequences.
\<close>

definition whitespace :: "string list" where
  "whitespace =
     map (\<lambda>c. [c]) [CHR 0x09, CHR 0x0A, CHR 0x0B, CHR 0x0C, CHR 0x0D,
                     CHR 0x1C, CHR 0x1D, CHR 0x1E, CHR 0x1F, CHR 0x20]
     @ [[CHR 0xC2, CHR 0x85], [CHR 0xC2, CHR 0xA0], [CHR 0xE1, CHR 0x9A, CHR 0x80]]
     @ map (\<lambda>c. [CHR 0xE2, CHR 0x80, c])
         [CHR 0x80, CHR 0x81, CHR 0x82, CHR 0x83, CHR 0x84, CHR 0x85, CHR 0x86, CHR 0x87,
          CHR 0x88, CHR 0x89, CHR 0x8A, CHR 0xA8, CHR 0xA9, CHR 0xAF]
     @ [[CHR 0xE2, CHR 0x81, CHR 0x9F], [CHR 0xE3, CHR 0x80, CHR 0x80]]"

function lstrip :: "string \<Rightarrow> string" where
  "lstrip s =
     (case find (\<lambda>w. prefix w s) whitespace of
        None \<Rightarrow> s
      | Some w \<Rightarrow> lstrip (drop (length w) s))"
  by pat_completeness auto
termination
proof (relation "measure length")
  show "wf (measure length)" by simp
next
  fix s w :: string
  assume "find (\<lambda>w. prefix w s) whitespace = Some w"
  then have "w \<in> set whitespace" and p: "prefix w s"
    by (auto simp: find_Some_iff)
  then have "w \<noteq> []"
    by (auto simp: whitespace_def)
  with p have "s \<noteq> []" and "0 < length w"
    by auto
  then show "(drop (length w) s, s) \<in> measure length"
    by simp
qed

declare lstrip.simps [simp del]

function rstrip :: "string \<Rightarrow> string" where
  "rstrip s =
     (case find (\<lambda>w. suffix w s) whitespace of
        None \<Rightarrow> s
      | Some w \<Rightarrow> rstrip (take (length s - length w) s))"
  by pat_completeness auto
termination
proof (relation "measure length")
  show "wf (measure length)" by simp
next
  fix s w :: string
  assume "find (\<lambda>w. suffix w s) whitespace = Some w"
  then have "w \<in> set whitespace" and p: "suffix w s"
    by (auto simp: find_Some_iff)
  then have "w \<noteq> []"
    by (auto simp: whitespace_def)
  with p have "s \<noteq> []" and "0 < length w"
    by auto
  then show "(take (length s - length w) s, s) \<in> measure length"
    by simp
qed

declare rstrip.simps [simp del]

definition strip :: "string \<Rightarrow> string" where
  "strip s = rstrip (lstrip s)"

record http_response =
  status_code :: int
  response_text :: string

text \<open>
  \<open>get_weather\<close>, given what \<open>requests.get\<close> does for a URL: a response, or an
  exception.
\<close>

definition get_weather_body ::
  "(string \<Rightarrow> pyexn + http_response) \<Rightarrow> string \<Rightarrow> pyexn + string" where
  "get_weather_body requests_get city =
     (case requests_get (''https://wttr.in/'' @ city @ ''?format=3'') of
        Inl e \<Rightarrow> Inl e
      | Inr response \<Rightarrow>
          if status_code response = 200 then Inr (strip (response_text response))
          else Inr (''Could not retrieve weather for '' @ city @ ''.''))"

definition get_weather ::
  "(string \<Rightarrow> pyexn + http_response) \<Rightarrow> string \<Rightarrow> pyexn + string" where
  "get_weather requests_get city =
     (case get_weather_body requests_get city of
        Inl e \<Rightarrow> Inr (''An error occurred while retrieving weather for '' @ city @ ''.'')
      | Inr m \<Rightarrow> Inr m)"

text \<open>
  \<open>search_web\<close>, given what \<open>DuckDuckGoSearchRun().run\<close> does for a query: the text of
  the results, or an exception.
\<close>

definition search_web_body :: "(string \<Rightarrow> pyexn + string) \<Rightarrow> string \<Rightarrow> pyexn + string" where
  "search_web_body run query = run query"

definition search_web :: "(string \<Rightarrow> pyexn + string) \<Rightarrow> string \<Rightarrow> pyexn + string" where
  "search_web run query =
     (case search_web_body run query of
        Inl e \<Rightarrow>
          Inr (''An error occurred while searching the web for '' @ sq @ query @ sq @ ''.'')
      | Inr results \<Rightarrow> Inr results)"

section \<open>Sending mail\<close>

record mime_message =
  msg_from :: string
  msg_to :: string
  msg_subject :: string
  msg_cc :: "string option"
  msg_body :: string

text \<open>
  What \<open>send_email\<close> meets outside the module: the environment variables, and for each
  call of \<open>smtplib\<close> and for \<open>msg.as_string()\<close> whether it raises.
\<close>

record mail_env =
  getenv :: "string \<Rightarrow> string option"
  smtp_connect :: "string \<Rightarrow> nat \<Rightarrow> pyexn option"
  smtp_starttls :: "pyexn option"
  smtp_login :: "string \<Rightarrow> string \<Rightarrow> pyexn option"
  as_string :: "mime_message \<Rightarrow> pyexn + string"
  smtp_sendmail :: "string \<Rightarrow> string list \<Rightarrow> string \<Rightarrow> pyexn option"
  smtp_quit :: "pyexn option"

datatype smtp_call =
  Connect string nat | StartTLS | Login string string
  | SendMail string "string list" string | Quit

text \<open>The four failure messages of \<open>send_email\<close>.\<close>

definition credentials_message :: string where
  "credentials_message = ''Email sending failed: Gmail credentials not configured.''"

definition authentication_message :: string where
  "authentication_message =
     ''Email sending failed: Authentication error. Please check your Gmail credentials.''"

definition smtp_error_message :: "pyexn \<Rightarrow> string" where
  "smtp_error_message e = ''Email sending failed: SMTP error - '' @ str_exn e"

definition generic_error_message :: "pyexn \<Rightarrow> string" where
  "generic_error_message e = ''An error occurred while sending email: '' @ str_exn e"

text \<open>
  The body of the \<open>try\<close> block: the calls made on the SMTP library, in order, and the
  value returned or the exception raised.
\<close>

definition send_email_body ::
  "mail_env \<Rightarrow> string \<Rightarrow> string \<Rightarrow> string \<Rightarrow> string option
     \<Rightarrow> smtp_call list \<times> (pyexn + string)" where
  "send_email_body env to_email subject message cc_email =
    (let smtp_server = ''smtp.gmail.com'';
         smtp_port = 587;
         gmail_user = getenv env ''GMAIL_USER'';
         gmail_password = getenv env ''GMAIL_PASS''
     in if \<not> truthy gmail_user \<or> \<not> truthy gmail_password
        then ([], Inr credentials_message)
        else
          (let user = the gmail_user;
               password = the gmail_password;
               msg = \<lparr>msg_from = user, msg_to = to_email, msg_subject = subject,
                      msg_cc = (if truthy cc_email then cc_email else None),
                      msg_body = message\<rparr>;
               recipients = (if truthy cc_email then [to_email, the cc_email] else [to_email]);
               c1 = [Connect smtp_server smtp_port];
               c2 = c1 @ [StartTLS];
               c3 = c2 @ [Login user password]
           in (case smtp_connect env smtp_server smtp_port of
                 Some e \<Rightarrow> (c1, Inl e)
               | None \<Rightarrow>
              (case smtp_starttls env of
                 Some e \<Rightarrow> (c2, Inl e)
               | None \<Rightarrow>
              (case smtp_login env user password of
                 Some e \<Rightarrow> (c3, Inl e)
               | None \<Rightarrow>
              (case as_string env msg of
                 Inl e \<Rightarrow> (c3, Inl e)
               | Inr txt \<Rightarrow>
              (case smtp_sendmail env user recipients txt of
                 Some e \<Rightarrow> (c3 @ [SendMail user recipients txt], Inl e)
               | None \<Rightarrow>
              (case smtp_quit env of
                 Some e \<Rightarrow> (c3 @ [SendMail user recipients txt, Quit], Inl e)
               | None \<Rightarrow>
                  (c3 @ [SendMail user recipients txt, Quit],
                   Inr (''Email sent successfully to '' @ to_email))))))))))"

text \<open>The three \<open>except\<close> clauses, tried in the order of the source.\<close>

definition email_failure :: "pyexn \<Rightarrow> string" where
  "email_failure e =
     (if exn_cls e = SMTPAuthenticationError then authentication_message
      else if exn_cls e = SMTPException then smtp_error_message e
      else generic_error_message e)"

definition send_email ::
  "mail_env \<Rightarrow> string \<Rightarrow> string \<Rightarrow> string \<Rightarrow> string option
     \<Rightarrow> smtp_call list \<times> (pyexn + string)" where
  "send_email env to_email subject message cc_email =
    (case send_email_body env to_email subject message cc_email of
       (calls, Inl e) \<Rightarrow> (calls, Inr (email_failure e))
     | (calls, Inr m) \<Rightarrow> (calls, Inr m))"

section \<open>Example inputs\<close>

text \<open>
  A working directory in which both files exist, with a roster that imports two tools and
  lists them; the definition generated for \<open>get_joke\<close>; and the same directory after
  \<open>get_joke\<close> has been registered once.
\<close>

definition example_agent :: string where
  "example_agent = ''from tools import get_weather, search_web'' @ nl
     @ ''agent = Agent(tools=[get_weather, search_web])'' @ nl"

definition example_fs :: filesystem where
  "example_fs =
     \<lparr>tools_py = Some \<lparr>content = ''import os'' @ nl, readable = True, writable = True\<rparr>,
      agent_py = Some \<lparr>content = example_agent, readable = True, writable = True\<rparr>\<rparr>"

definition example_code :: string where
  "example_code = render_template ''get_joke'' ''Tell a joke''
     ''https://api.example.com/v1/data'' ''RAPIDAPI_KEY'' ''api.example.com''"

definition example_fs_registered :: filesystem where
  "example_fs_registered =
     \<lparr>tools_py = Some \<lparr>content = ''import os'' @ nl @ example_code @ nl,
                        readable = True, writable = True\<rparr>,
      agent_py = Some \<lparr>content = ''from tools import get_joke, get_weather, search_web'' @ nl
                          @ ''agent = Agent(tools=[get_weather, search_web])'' @ nl,
                        readable = True, writable = True\<rparr>\<rparr>"

text \<open>The example directory with a store that cannot be written.\<close>

definition example_fs_locked :: filesystem where
  "example_fs_locked =
     \<lparr>tools_py = Some \<lparr>content = ''import os'' @ nl, readable = True, writable = False\<rparr>,
      agent_py = Some \<lparr>content = example_agent, readable = True, writable = True\<rparr>\<rparr>"

text \<open>
  An environment with both credentials set, in which the server accepts the connection
  and refuses the login.
\<close>

definition example_mail_env :: mail_env where
  "example_mail_env =
     \<lparr>getenv = (\<lambda>v. if v = ''GMAIL_USER'' then Some ''me@gmail.com''
                     else if v = ''GMAIL_PASS'' then Some ''secret'' else None),
      smtp_connect = (\<lambda>h p. None), smtp_starttls = None,
      smtp_login = (\<lambda>u p. Some (Exn SMTPAuthenticationError ''(535, bad credentials)'')),
      as_string = (\<lambda>m. Inr (msg_body m)), smtp_sendmail = (\<lambda>u r t. None),
      smtp_quit = None\<rparr>"

section \<open>Properties of the to-do list\<close>

lemma find_task_first:
  "\<forall>x\<in>set pre. item_task x \<noteq> tk \<Longrightarrow> item_task t = tk \<Longrightarrow>
   find_task tk (pre @ t # post) = Some t"
  by (induction pre) auto

lemma remove1_first:
  "\<forall>x\<in>set pre. item_task x \<noteq> item_task t \<Longrightarrow> remove1 t (pre @ t # post) = pre @ post"
  by (induction pre) auto

lemma complete_first_first:
  "\<forall>x\<in>set pre. item_task x \<noteq> tk \<Longrightarrow> item_task t = tk \<Longrightarrow>
   complete_first tk (pre @ t # post) = Some (pre @ t\<lparr>item_done := True\<rparr> # post)"
  by (induction pre) auto

lemma manage_todo_remove_first:
  assumes "tk \<noteq> []" and "\<forall>x\<in>set pre. item_task x \<noteq> tk" and "item_task t = tk"
  shows "manage_todo (pre @ t # post) ''remove'' (Some tk) =
           (pre @ post, Inr (wastebasket @ '' Task removed: '' @ sq @ tk @ sq))"
proof -
  have "find_task tk (pre @ t # post) = Some t"
    using assms(2,3) by (rule find_task_first)
  moreover have "remove1 t (pre @ t # post) = pre @ post"
    using assms(2,3) by (simp add: remove1_first)
  ultimately show ?thesis
    using assms(1) by (simp add: manage_todo_def manage_todo_body_def)
qed

lemma manage_todo_complete_first:
  assumes "tk \<noteq> []" and "\<forall>x\<in>set pre. item_task x \<noteq> tk" and "item_task t = tk"
  shows "manage_todo (pre @ t # post) ''complete'' (Some tk) =
           (pre @ t\<lparr>item_done := True\<rparr> # post,
            Inr (check_mark @ '' Task completed: '' @ sq @ tk @ sq))"
proof -
  have "complete_first tk (pre @ t # post) = Some (pre @ t\<lparr>item_done := True\<rparr> # post)"
    using assms(2,3) by (rule complete_first_first)
  then show ?thesis
    using assms(1) by (simp add: manage_todo_def manage_todo_body_def)
qed

lemma todo_add_milk:
  "manage_todo module_todo_list ''add'' (Some ''buy milk'') =
     ([\<lparr>item_task = ''buy milk'', item_done = False\<rparr>],
      Inr (check_mark @ '' Task added: '' @ sq @ ''buy milk'' @ sq))"
  by (simp add: manage_todo_def manage_todo_body_def module_todo_list_def)

lemma todo_list_unchecked:
  "manage_todo [\<lparr>item_task = ''buy milk'', item_done = False\<rparr>] ''list'' None =
     ([\<lparr>item_task = ''buy milk'', item_done = False\<rparr>],
      Inr (clipboard @ '' Your To-Do List:'' @ nl @ ''1. ['' @ cross_mark @ ''] buy milk''))"
  by (simp add: manage_todo_def manage_todo_body_def todo_line_def enumerate_eq_zip
      str_nat.simps digit_char_def)

lemma todo_complete_milk:
  "manage_todo [\<lparr>item_task = ''buy milk'', item_done = False\<rparr>] ''complete'' (Some ''buy milk'') =
     ([\<lparr>item_task = ''buy milk'', item_done = True\<rparr>],
      Inr (check_mark @ '' Task completed: '' @ sq @ ''buy milk'' @ sq))"
  by (simp add: manage_todo_def manage_todo_body_def)

lemma todo_list_checked:
  "manage_todo [\<lparr>item_task = ''buy milk'', item_done = True\<rparr>] ''list'' None =
     ([\<lparr>item_task = ''buy milk'', item_done = True\<rparr>],
      Inr (clipboard @ '' Your To-Do List:'' @ nl @ ''1. ['' @ heavy_check @ ''] buy milk''))"
  by (simp add: manage_todo_def manage_todo_body_def todo_line_def enumerate_eq_zip
      str_nat.simps digit_char_def)

lemma todo_remove_milk:
  "manage_todo [\<lparr>item_task = ''buy milk'', item_done = True\<rparr>] ''remove'' (Some ''buy milk'') =
     ([], Inr (wastebasket @ '' Task removed: '' @ sq @ ''buy milk'' @ sq))"
  by (simp add: manage_todo_def manage_todo_body_def)

lemma todo_list_empty:
  "manage_todo [] ''list'' None = ([], Inr (memo @ '' Your to-do list is empty.''))"
  by (simp add: manage_todo_def manage_todo_body_def)

text \<open>
  C8. Starting from the empty to-do list of the module, \<open>add "buy milk"\<close> followed by
  \<open>list\<close> shows one entry, marked not done; after \<open>complete "buy milk"\<close>,
  \<open>list\<close> shows the entry marked done; after \<open>remove "buy milk"\<close>, \<open>list\<close>
  reports that the list is empty.
  When several entries have the same text, \<open>remove\<close> deletes only the first of them and
  \<open>complete\<close> marks only the first of them done: the entries before it and after it are
  left as they are.
\<close>

theorem manage_todo_scenario_first_match:
  "(let milk = \<lparr>item_task = ''buy milk'', item_done = False\<rparr>;
        milk_done = \<lparr>item_task = ''buy milk'', item_done = True\<rparr> in
      manage_todo module_todo_list ''add'' (Some ''buy milk'') =
        ([milk], Inr (check_mark @ '' Task added: '' @ sq @ ''buy milk'' @ sq))
    \<and> manage_todo [milk] ''list'' None =
        ([milk], Inr (clipboard @ '' Your To-Do List:'' @ nl
                      @ ''1. ['' @ cross_mark @ ''] buy milk''))
    \<and> manage_todo [milk] ''complete'' (Some ''buy milk'') =
        ([milk_done], Inr (check_mark @ '' Task completed: '' @ sq @ ''buy milk'' @ sq))
    \<and> manage_todo [milk_done] ''list'' None =
        ([milk_done], Inr (clipboard @ '' Your To-Do List:'' @ nl
                           @ ''1. ['' @ heavy_check @ ''] buy milk''))
    \<and> manage_todo [milk_done] ''remove'' (Some ''buy milk'') =
        ([], Inr (wastebasket @ '' Task removed: '' @ sq @ ''buy milk'' @ sq))
    \<and> manage_todo [] ''list'' None = ([], Inr (memo @ '' Your to-do list is empty.'')))
   \<and> (\<forall>tk pre t post.
        tk \<noteq> [] \<and> (\<forall>x\<in>set pre. item_task x \<noteq> tk) \<and> item_task t = tk \<longrightarrow>
          manage_todo (pre @ t # post) ''remove'' (Some tk) =
            (pre @ post, Inr (wastebasket @ '' Task removed: '' @ sq @ tk @ sq))
        \<and> manage_todo (pre @ t # post) ''complete'' (Some tk) =
            (pre @ t\<lparr>item_done := True\<rparr> # post,
             Inr (check_mark @ '' Task completed: '' @ sq @ tk @ sq)))"
  unfolding Let_def
  using todo_add_milk todo_list_unchecked todo_complete_milk todo_list_checked
    todo_remove_milk todo_list_empty manage_todo_remove_first manage_todo_complete_first
  by blast

theorem manage_todo_scenario_first_match_witness:
  "manage_todo [\<lparr>item_task = ''call'', item_done = False\<rparr>,
                \<lparr>item_task = ''buy milk'', item_done = False\<rparr>,
                \<lparr>item_task = ''buy milk'', item_done = False\<rparr>] ''remove'' (Some ''buy milk'') =
     ([\<lparr>item_task = ''call'', item_done = False\<rparr>,
       \<lparr>item_task = ''buy milk'', item_done = False\<rparr>],
      Inr (wastebasket @ '' Task removed: '' @ sq @ ''buy milk'' @ sq))
   \<and> manage_todo [\<lparr>item_task = ''call'', item_done = False\<rparr>,
                  \<lparr>item_task = ''buy milk'', item_done = False\<rparr>,
                  \<lparr>item_task = ''buy milk'', item_done = False\<rparr>] ''complete'' (Some ''buy milk'') =
     ([\<lparr>item_task = ''call'', item_done = False\<rparr>,
       \<lparr>item_task = ''buy milk'', item_done = True\<rparr>,
       \<lparr>item_task = ''buy milk'', item_done = False\<rparr>],
      Inr (check_mark @ '' Task completed: '' @ sq @ ''buy milk'' @ sq))"
proof -
  have h: "''buy milk'' \<noteq> []
      \<and> (\<forall>x\<in>set [\<lparr>item_task = ''call'', item_done = False\<rparr>]. item_task x \<noteq> ''buy milk'')
      \<and> item_task \<lparr>item_task = ''buy milk'', item_done = False\<rparr> = ''buy milk''"
    by simp
  from manage_todo_scenario_first_match
  have "\<forall>tk pre t post.
        tk \<noteq> [] \<and> (\<forall>x\<in>set pre. item_task x \<noteq> tk) \<and> item_task t = tk \<longrightarrow>
          manage_todo (pre @ t # post) ''remove'' (Some tk) =
            (pre @ post, Inr (wastebasket @ '' Task removed: '' @ sq @ tk @ sq))
        \<and> manage_todo (pre @ t # post) ''complete'' (Some tk) =
            (pre @ t\<lparr>item_done := True\<rparr> # post,
             Inr (check_mark @ '' Task completed: '' @ sq @ tk @ sq))"
    by (rule conjunct2)
  from this [rule_format, OF h, of "[\<lparr>item_task = ''buy milk'', item_done = False\<rparr>]"]
  show ?thesis by simp
qed

section \<open>Properties of the notes list\<close>

text \<open>
  C10. \<open>notes_memory\<close> is never defined in the module, so every call of
  \<open>manage_notes\<close> that reaches the list (\<open>add\<close> or \<open>remove\<close> with a non-empty
  note, \<open>list\<close> or \<open>clear\<close> with any argument) returns the failure message
  \<open>Error managing notes: name 'notes_memory' is not defined\<close>; and no call, whatever
  its arguments, gives the name a binding, so nothing is ever stored, removed, listed or
  cleared.
\<close>

theorem manage_notes_always_fails:
  "((action = ''add'' \<or> action = ''remove'') \<and> truthy note
      \<or> action = ''list'' \<or> action = ''clear'' \<longrightarrow>
    manage_notes module_notes_memory action note =
      (module_notes_memory,
       Inr (cross_mark @ '' Error managing notes: name '' @ sq @ ''notes_memory'' @ sq
            @ '' is not defined'')))
   \<and> fst (manage_notes module_notes_memory action note) = module_notes_memory"
  by (auto simp: manage_notes_def manage_notes_body_def module_notes_memory_def
      notes_memory_undefined_def)

theorem manage_notes_always_fails_witness:
  "manage_notes module_notes_memory ''add'' (Some ''buy milk'') =
     (module_notes_memory,
      Inr (cross_mark @ '' Error managing notes: name '' @ sq @ ''notes_memory'' @ sq
           @ '' is not defined''))"
proof -
  have "(''add'' = ''add'' \<or> ''add'' = ''remove'') \<and> truthy (Some ''buy milk'')
          \<or> ''add'' = ''list'' \<or> ''add'' = ''clear''"
    by simp
  with manage_notes_always_fails [of "''add''" "Some ''buy milk''"]
  show ?thesis by blast
qed

section \<open>Properties of \<open>send_email\<close>\<close>

lemma send_email_no_credentials:
  "\<not> truthy (getenv env ''GMAIL_USER'') \<or> \<not> truthy (getenv env ''GMAIL_PASS'') \<Longrightarrow>
   send_email env to_email subject message cc_email = ([], Inr credentials_message)"
  by (simp add: send_email_def send_email_body_def)

lemma send_email_handler:
  "send_email_body env to_email subject message cc_email = (calls, Inl e) \<Longrightarrow>
   send_email env to_email subject message cc_email = (calls, Inr (email_failure e))"
  by (simp add: send_email_def)

lemma email_messages_distinct:
  "credentials_message \<noteq> authentication_message"
  "credentials_message \<noteq> smtp_error_message e"
  "credentials_message \<noteq> generic_error_message e"
  "authentication_message \<noteq> smtp_error_message e"
  "authentication_message \<noteq> generic_error_message e"
  "smtp_error_message e \<noteq> generic_error_message e'"
  by (simp_all add: credentials_message_def authentication_message_def
      smtp_error_message_def generic_error_message_def)

lemma send_email_login_raises:
  assumes "truthy (getenv env ''GMAIL_USER'')" and "truthy (getenv env ''GMAIL_PASS'')"
    and "smtp_connect env ''smtp.gmail.com'' 587 = None" and "smtp_starttls env = None"
    and "smtp_login env (the (getenv env ''GMAIL_USER'')) (the (getenv env ''GMAIL_PASS''))
           = Some e"
  shows "send_email_body env to_email subject message cc_email =
     ([Connect ''smtp.gmail.com'' 587, StartTLS,
       Login (the (getenv env ''GMAIL_USER'')) (the (getenv env ''GMAIL_PASS''))], Inl e)"
  using assms by (simp add: send_email_body_def Let_def)

lemma example_mail_env_login:
  "send_email_body example_mail_env ''you@example.com'' ''Hi'' ''Hello'' None =
     ([Connect ''smtp.gmail.com'' 587, StartTLS, Login ''me@gmail.com'' ''secret''],
      Inl (Exn SMTPAuthenticationError ''(535, bad credentials)''))"
  by (simp add: send_email_body_def example_mail_env_def Let_def)

lemma send_email_step_raises:
  assumes "truthy (getenv env ''GMAIL_USER'')" and "truthy (getenv env ''GMAIL_PASS'')"
  shows "(let user = the (getenv env ''GMAIL_USER'');
              password = the (getenv env ''GMAIL_PASS'');
              msg = \<lparr>msg_from = user, msg_to = to_email, msg_subject = subject,
                     msg_cc = (if truthy cc_email then cc_email else None),
                     msg_body = message\<rparr>;
              recipients = (if truthy cc_email then [to_email, the cc_email] else [to_email]);
              c3 = [Connect ''smtp.gmail.com'' 587, StartTLS, Login user password]
          in (smtp_connect env ''smtp.gmail.com'' 587 = Some e
                \<and> calls = [Connect ''smtp.gmail.com'' 587])
           \<or> (smtp_connect env ''smtp.gmail.com'' 587 = None \<and> smtp_starttls env = Some e
                \<and> calls = [Connect ''smtp.gmail.com'' 587, StartTLS])
           \<or> (smtp_connect env ''smtp.gmail.com'' 587 = None \<and> smtp_starttls env = None
                \<and> smtp_login env user password = Some e \<and> calls = c3)
           \<or> (smtp_connect env ''smtp.gmail.com'' 587 = None \<and> smtp_starttls env = None
                \<and> smtp_login env user password = None \<and> as_string env msg = Inl e
                \<and> calls = c3)
           \<or> (\<exists>body. smtp_connect env ''smtp.gmail.com'' 587 = None
                \<and> smtp_starttls env = None \<and> smtp_login env user password = None
                \<and> as_string env msg = Inr body
                \<and> smtp_sendmail env user recipients body = Some e
                \<and> calls = c3 @ [SendMail user recipients body])
           \<or> (\<exists>body. smtp_connect env ''smtp.gmail.com'' 587 = None
                \<and> smtp_starttls env = None \<and> smtp_login env user password = None
                \<and> as_string env msg = Inr body
                \<and> smtp_sendmail env user recipients body = None \<and> smtp_quit env = Some e
                \<and> calls = c3 @ [SendMail user recipients body, Quit]))
         \<Longrightarrow> send_email_body env to_email subject message cc_email = (calls, Inl e)"
  using assms
  unfolding Let_def
  by (elim disjE exE conjE) (simp_all add: send_email_body_def Let_def)

text \<open>
  C9. \<open>send_email\<close> maps its failures to four messages. When either credential is unset
  (or empty) it returns the credentials message and makes no call on the SMTP library.
  With both credentials set, whichever step is the first to raise (the connection,
  \<open>starttls\<close>, the login, rendering the message, \<open>sendmail\<close> or \<open>quit\<close>), the call
  returns the calls made up to that step and a message chosen by the class of the
  exception: \<open>SMTPAuthenticationError\<close> gives the authentication message, any other
  \<open>SMTPException\<close> the SMTP-error message, anything else the generic message; in
  particular a login refused with \<open>SMTPAuthenticationError\<close> gives the authentication
  message. The same holds for every exception raised inside the \<open>try\<close> block. The four
  messages are pairwise different, whatever text the exceptions carry.
\<close>

theorem send_email_failure_messages:
  "(\<not> truthy (getenv env ''GMAIL_USER'') \<or> \<not> truthy (getenv env ''GMAIL_PASS'') \<longrightarrow>
      send_email env to_email subject message cc_email = ([], Inr credentials_message))
   \<and> (\<forall>calls e. send_email_body env to_email subject message cc_email = (calls, Inl e) \<longrightarrow>
        send_email env to_email subject message cc_email =
          (calls, Inr (if exn_cls e = SMTPAuthenticationError then authentication_message
                       else if exn_cls e = SMTPException then smtp_error_message e
                       else generic_error_message e)))
   \<and> (\<forall>e. truthy (getenv env ''GMAIL_USER'') \<and> truthy (getenv env ''GMAIL_PASS'')
          \<and> smtp_connect env ''smtp.gmail.com'' 587 = None \<and> smtp_starttls env = None
          \<and> smtp_login env (the (getenv env ''GMAIL_USER'')) (the (getenv env ''GMAIL_PASS''))
              = Some e
          \<and> exn_cls e = SMTPAuthenticationError \<longrightarrow>
        snd (send_email env to_email subject message cc_email) = Inr authentication_message)
   \<and> (\<forall>calls e.
        truthy (getenv env ''GMAIL_USER'') \<and> truthy (getenv env ''GMAIL_PASS'')
        \<and> (let user = the (getenv env ''GMAIL_USER'');
              password = the (getenv env ''GMAIL_PASS'');
              msg = \<lparr>msg_from = user, msg_to = to_email, msg_subject = subject,
                     msg_cc = (if truthy cc_email then cc_email else None),
                     msg_body = message\<rparr>;
              recipients = (if truthy cc_email then [to_email, the cc_email] else [to_email]);
              c3 = [Connect ''smtp.gmail.com'' 587, StartTLS, Login user password]
          in (smtp_connect env ''smtp.gmail.com'' 587 = Some e
                \<and> calls = [Connect ''smtp.gmail.com'' 587])
           \<or> (smtp_connect env ''smtp.gmail.com'' 587 = None \<and> smtp_starttls env = Some e
                \<and> calls = [Connect ''smtp.gmail.com'' 587, StartTLS])
           \<or> (smtp_connect env ''smtp.gmail.com'' 587 = None \<and> smtp_starttls env = None
                \<and> smtp_login env user password = Some e \<and> calls = c3)
           \<or> (smtp_connect env ''smtp.gmail.com'' 587 = None \<and> smtp_starttls env = None
                \<and> smtp_login env user password = None \<and> as_string env msg = Inl e
                \<and> calls = c3)
           \<or> (\<exists>body. smtp_connect env ''smtp.gmail.com'' 587 = None
                \<and> smtp_starttls env = None \<and> smtp_login env user password = None
                \<and> as_string env msg = Inr body
                \<and> smtp_sendmail env user recipients body = Some e
                \<and> calls = c3 @ [SendMail user recipients body])
           \<or> (\<exists>body. smtp_connect env ''smtp.gmail.com'' 587 = None
                \<and> smtp_starttls env = None \<and> smtp_login env user password = None
                \<and> as_string env msg = Inr body
                \<and> smtp_sendmail env user recipients body = None \<and> smtp_quit env = Some e
                \<and> calls = c3 @ [SendMail user recipients body, Quit]))
        \<longrightarrow> send_email env to_email subject message cc_email =
          (calls, Inr (if exn_cls e = SMTPAuthenticationError then authentication_message
                       else if exn_cls e = SMTPException then smtp_error_message e
                       else generic_error_message e)))
   \<and> (\<forall>e e'. credentials_message \<noteq> authentication_message
          \<and> credentials_message \<noteq> smtp_error_message e
          \<and> credentials_message \<noteq> generic_error_message e
          \<and> authentication_message \<noteq> smtp_error_message e
          \<and> authentication_message \<noteq> generic_error_message e
          \<and> smtp_error_message e \<noteq> generic_error_message e')"
proof (intro conjI allI impI)
  fix e
  assume a: "truthy (getenv env ''GMAIL_USER'') \<and> truthy (getenv env ''GMAIL_PASS'')
          \<and> smtp_connect env ''smtp.gmail.com'' 587 = None \<and> smtp_starttls env = None
          \<and> smtp_login env (the (getenv env ''GMAIL_USER'')) (the (getenv env ''GMAIL_PASS''))
              = Some e
          \<and> exn_cls e = SMTPAuthenticationError"
  then have "send_email_body env to_email subject message cc_email =
     ([Connect ''smtp.gmail.com'' 587, StartTLS,
       Login (the (getenv env ''GMAIL_USER'')) (the (getenv env ''GMAIL_PASS''))], Inl e)"
    by (intro send_email_login_raises) simp_all
  with a show "snd (send_email env to_email subject message cc_email) = Inr authentication_message"
    by (simp add: send_email_def email_failure_def)
next
  fix calls e
  assume a: "truthy (getenv env ''GMAIL_USER'') \<and> truthy (getenv env ''GMAIL_PASS'')
        \<and> (let user = the (getenv env ''GMAIL_USER'');
              password = the (getenv env ''GMAIL_PASS'');
              msg = \<lparr>msg_from = user, msg_to = to_email, msg_subject = subject,
                     msg_cc = (if truthy cc_email then cc_email else None),
                     msg_body = message\<rparr>;
              recipients = (if truthy cc_email then [to_email, the cc_email] else [to_email]);
              c3 = [Connect ''smtp.gmail.com'' 587, StartTLS, Login user password]
          in (smtp_connect env ''smtp.gmail.com'' 587 = Some e
                \<and> calls = [Connect ''smtp.gmail.com'' 587])
           \<or> (smtp_connect env ''smtp.gmail.com'' 587 = None \<and> smtp_starttls env = Some e
                \<and> calls = [Connect ''smtp.gmail.com'' 587, StartTLS])
           \<or> (smtp_connect env ''smtp.gmail.com'' 587 = None \<and> smtp_starttls env = None
                \<and> smtp_login env user password = Some e \<and> calls = c3)
           \<or> (smtp_connect env ''smtp.gmail.com'' 587 = None \<and> smtp_starttls env = None
                \<and> smtp_login env user password = None \<and> as_string env msg = Inl e
                \<and> calls = c3)
           \<or> (\<exists>body. smtp_connect env ''smtp.gmail.com'' 587 = None
                \<and> smtp_starttls env = None \<and> smtp_login env user password = None
                \<and> as_string env msg = Inr body
                \<and> smtp_sendmail env user recipients body = Some e
                \<and> calls = c3 @ [SendMail user recipients body])
           \<or> (\<exists>body. smtp_connect env ''smtp.gmail.com'' 587 = None
                \<and> smtp_starttls env = None \<and> smtp_login env user password = None
                \<and> as_string env msg = Inr body
                \<and> smtp_sendmail env user recipients body = None \<and> smtp_quit env = Some e
                \<and> calls = c3 @ [SendMail user recipients body, Quit]))"
  then have "send_email_body env to_email subject message cc_email = (calls, Inl e)"
    by (intro send_email_step_raises) simp_all
  then show "send_email env to_email subject message cc_email =
          (calls, Inr (if exn_cls e = SMTPAuthenticationError then authentication_message
                       else if exn_cls e = SMTPException then smtp_error_message e
                       else generic_error_message e))"
    by (simp add: send_email_handler email_failure_def)
qed (simp_all add: send_email_no_credentials send_email_handler email_failure_def
    email_messages_distinct)

theorem send_email_failure_messages_witness:
  "send_email (example_mail_env\<lparr>getenv := (\<lambda>v. None)\<rparr>) ''you@example.com'' ''Hi'' ''Hello'' None
     = ([], Inr credentials_message)
   \<and> send_email example_mail_env ''you@example.com'' ''Hi'' ''Hello'' None
     = ([Connect ''smtp.gmail.com'' 587, StartTLS, Login ''me@gmail.com'' ''secret''],
        Inr authentication_message)
   \<and> send_email
        (example_mail_env\<lparr>smtp_connect :=
           (\<lambda>h p. Some (Exn SMTPException ''Connection unexpectedly closed''))\<rparr>)
        ''you@example.com'' ''Hi'' ''Hello'' None
     = ([Connect ''smtp.gmail.com'' 587],
        Inr (''Email sending failed: SMTP error - Connection unexpectedly closed''))
   \<and> send_email
        (example_mail_env\<lparr>smtp_login := (\<lambda>u p. None),
           smtp_sendmail := (\<lambda>u r t. Some (Exn OtherException ''timed out''))\<rparr>)
        ''you@example.com'' ''Hi'' ''Hello'' None
     = ([Connect ''smtp.gmail.com'' 587, StartTLS, Login ''me@gmail.com'' ''secret'',
         SendMail ''me@gmail.com'' [''you@example.com''] ''Hello''],
        Inr (''An error occurred while sending email: timed out''))"
proof -
  have a: "\<not> truthy (getenv (example_mail_env\<lparr>getenv := (\<lambda>v. None)\<rparr>) ''GMAIL_USER'')
           \<or> \<not> truthy (getenv (example_mail_env\<lparr>getenv := (\<lambda>v. None)\<rparr>) ''GMAIL_PASS'')"
    by simp
  note t = send_email_failure_messages
  from t [of "example_mail_env\<lparr>getenv := (\<lambda>v. None)\<rparr>" "''you@example.com''" "''Hi''"
      "''Hello''" None] a
  have 1: "send_email (example_mail_env\<lparr>getenv := (\<lambda>v. None)\<rparr>) ''you@example.com'' ''Hi''
      ''Hello'' None = ([], Inr credentials_message)"
    by blast
  from t [of example_mail_env "''you@example.com''" "''Hi''" "''Hello''" None]
    example_mail_env_login
  have 2: "send_email example_mail_env ''you@example.com'' ''Hi'' ''Hello'' None =
      ([Connect ''smtp.gmail.com'' 587, StartTLS, Login ''me@gmail.com'' ''secret''],
       Inr (if exn_cls (Exn SMTPAuthenticationError ''(535, bad credentials)'')
               = SMTPAuthenticationError then authentication_message
            else if exn_cls (Exn SMTPAuthenticationError ''(535, bad credentials)'')
               = SMTPException
            then smtp_error_message (Exn SMTPAuthenticationError ''(535, bad credentials)'')
            else generic_error_message (Exn SMTPAuthenticationError ''(535, bad credentials)'')))"
    by blast
  let ?down = "example_mail_env\<lparr>smtp_connect :=
           (\<lambda>h p. Some (Exn SMTPException ''Connection unexpectedly closed''))\<rparr>"
  let ?slow = "example_mail_env\<lparr>smtp_login := (\<lambda>u p. None),
           smtp_sendmail := (\<lambda>u r t. Some (Exn OtherException ''timed out''))\<rparr>"
  note step = t [THEN conjunct2, THEN conjunct2, THEN conjunct2, THEN conjunct1, rule_format]
  have 3: "send_email ?down ''you@example.com'' ''Hi'' ''Hello'' None =
      ([Connect ''smtp.gmail.com'' 587],
       Inr (if exn_cls (Exn SMTPException ''Connection unexpectedly closed'')
               = SMTPAuthenticationError then authentication_message
            else if exn_cls (Exn SMTPException ''Connection unexpectedly closed'')
               = SMTPException
            then smtp_error_message (Exn SMTPException ''Connection unexpectedly closed'')
            else generic_error_message (Exn SMTPException ''Connection unexpectedly closed'')))"
    by (rule step) (simp add: example_mail_env_def)
  have 4: "send_email ?slow ''you@example.com'' ''Hi'' ''Hello'' None =
      ([Connect ''smtp.gmail.com'' 587, StartTLS, Login ''me@gmail.com'' ''secret'',
        SendMail ''me@gmail.com'' [''you@example.com''] ''Hello''],
       Inr (if exn_cls (Exn OtherException ''timed out'') = SMTPAuthenticationError
            then authentication_message
            else if exn_cls (Exn OtherException ''timed out'') = SMTPException
            then smtp_error_message (Exn OtherException ''timed out'')
            else generic_error_message (Exn OtherException ''timed out'')))"
    by (rule step) (simp add: example_mail_env_def)
  from 1 2 3 4 show ?thesis
    by (simp add: smtp_error_message_def generic_error_message_def)
qed

section \<open>Properties of the registrar: the generated definition\<close>

lemma example_host:
  "host_value (Some ''https://api.example.com/v1/data'') None = Inr ''api.example.com''"
  by (simp add: host_value_def list_index_def)

lemma host_header_in_template:
  "py_in (dq @ ''X-RapidAPI-Host'' @ dq @ '': '' @ dq @ host @ dq @ nl)
     (render_template function_name purpose url key host)"
proof -
  have "\<exists>ps ss. render_template function_name purpose url key host =
          ps @ (dq @ ''X-RapidAPI-Host'' @ dq @ '': '' @ dq @ host @ dq @ nl) @ ss"
    unfolding render_template_def by (metis append.assoc)
  then show ?thesis
    by (simp add: py_in_def sublist_def del: append_assoc)
qed

text \<open>
  C4. With \<open>api_url = "https://api.example.com/v1/data"\<close> and no \<open>api_host\<close>, the
  host derived from the URL is \<open>api.example.com\<close>, the generated definition is the
  template rendered with that host, and its text holds the header line
  \<open>"X-RapidAPI-Host": "api.example.com"\<close>.
\<close>

theorem derived_host_example:
  "host_value (Some ''https://api.example.com/v1/data'') None = Inr ''api.example.com''
   \<and> function_code function_name purpose (Some ''https://api.example.com/v1/data'') None
        api_key_env =
       Inr (render_template function_name purpose ''https://api.example.com/v1/data''
              (str_opt api_key_env) ''api.example.com'')
   \<and> py_in (dq @ ''X-RapidAPI-Host'' @ dq @ '': '' @ dq @ ''api.example.com'' @ dq @ nl)
        (render_template function_name purpose ''https://api.example.com/v1/data''
              (str_opt api_key_env) ''api.example.com'')"
  using example_host host_header_in_template [of "''api.example.com''"]
  by (simp add: function_code_def url_value_def)

lemma host_value_short_url:
  assumes "\<not> truthy api_host" and "length (str_split CHR ''/'' api_url) < 3"
  shows "host_value (Some api_url) api_host = Inl (Exn IndexError ''list index out of range'')"
  using assms by (simp add: host_value_def list_index_def)

text \<open>
  C3, amended. When \<open>api_host\<close> is absent (or empty) and \<open>api_url\<close> has fewer than
  three segments between slashes, the registration fails and neither \<open>tools.py\<close> nor
  \<open>agent.py\<close> is modified: indexing the segments raises \<open>IndexError\<close> inside the
  \<open>try\<close> block before any file is opened, and the only state of the file system is
  the initial one. The failure is not a result of its own for a malformed URL: the call
  returns the message of the catch-all handler with the text of the \<open>IndexError\<close>.
\<close>

theorem create_tool_short_url_fails:
  assumes "\<not> truthy api_host" and "length (str_split CHR ''/'' api_url) < 3"
  shows "create_tool_body fs function_name purpose (Some api_url) api_host api_key_env =
           ([fs], Inl (Exn IndexError ''list index out of range''))
       \<and> create_tool fs function_name purpose (Some api_url) api_host api_key_env =
           (fs, Inr (cross_mark @ '' Failed to create function: list index out of range''))"
  using host_value_short_url [OF assms]
  by (simp add: create_tool_def create_tool_body_def function_code_def)

theorem create_tool_short_url_fails_witness:
  "create_tool example_fs ''get_joke'' ''Tell a joke'' (Some ''notaurl'') None
     (Some ''RAPIDAPI_KEY'')
     = (example_fs, Inr (cross_mark @ '' Failed to create function: list index out of range''))"
proof -
  have a: "\<not> truthy None"
    by simp
  have b: "length (str_split CHR ''/'' ''notaurl'') < 3"
    by simp
  from create_tool_short_url_fails [OF a b] show ?thesis
    by simp
qed

text \<open>
  C3, as the claim states it, fails. For \<open>api_url = "notaurl"\<close> the registrar has no
  result that names a malformed URL. What is raised is the \<open>IndexError\<close> of the list
  access; what is returned is the string of the one handler that answers every exception,
  the same handler and prefix that answer a store that cannot be written. The string
  mentions neither a URL nor the value that was passed.
\<close>

theorem create_tool_short_url_counterexample:
  "create_tool_body example_fs ''get_joke'' ''Tell a joke'' (Some ''notaurl'') None
      (Some ''RAPIDAPI_KEY'') = ([example_fs], Inl (Exn IndexError ''list index out of range''))
   \<and> snd (create_tool example_fs ''get_joke'' ''Tell a joke'' (Some ''notaurl'') None
           (Some ''RAPIDAPI_KEY'')) =
       Inr (cross_mark @ '' Failed to create function: '' @ ''list index out of range'')
   \<and> snd (create_tool example_fs_locked ''get_joke'' ''Tell a joke''
           (Some ''https://api.example.com/v1/data'') None (Some ''RAPIDAPI_KEY'')) =
       Inr (cross_mark @ '' Failed to create function: ''
            @ ''[Errno 13] Permission denied: '' @ sq @ ''tools.py'' @ sq)
   \<and> \<not> py_in ''URL'' (cross_mark @ '' Failed to create function: list index out of range'')
   \<and> \<not> py_in ''url'' (cross_mark @ '' Failed to create function: list index out of range'')
   \<and> \<not> py_in ''notaurl''
         (cross_mark @ '' Failed to create function: list index out of range'')"
proof -
  have h: "host_value (Some ''notaurl'') None = Inl (Exn IndexError ''list index out of range'')"
    by (simp add: host_value_def list_index_def)
  then have 1: "create_tool_body example_fs ''get_joke'' ''Tell a joke'' (Some ''notaurl'') None
      (Some ''RAPIDAPI_KEY'') = ([example_fs], Inl (Exn IndexError ''list index out of range''))"
    by (simp add: create_tool_body_def function_code_def)
  then have 2: "snd (create_tool example_fs ''get_joke'' ''Tell a joke'' (Some ''notaurl'') None
           (Some ''RAPIDAPI_KEY'')) =
       Inr (cross_mark @ '' Failed to create function: '' @ ''list index out of range'')"
    by (simp add: create_tool_def)
  have "create_tool_body example_fs_locked ''get_joke'' ''Tell a joke''
           (Some ''https://api.example.com/v1/data'') None (Some ''RAPIDAPI_KEY'') =
       ([example_fs_locked], Inl (permission_denied ''tools.py''))"
    using example_host
    by (simp add: create_tool_body_def function_code_def open_append_def example_fs_locked_def)
  then have 3: "snd (create_tool example_fs_locked ''get_joke'' ''Tell a joke''
           (Some ''https://api.example.com/v1/data'') None (Some ''RAPIDAPI_KEY'')) =
       Inr (cross_mark @ '' Failed to create function: ''
            @ ''[Errno 13] Permission denied: '' @ sq @ ''tools.py'' @ sq)"
    by (simp add: create_tool_def permission_denied_def)
  have 4: "\<not> py_in ''URL'' (cross_mark @ '' Failed to create function: list index out of range'')"
    "\<not> py_in ''url'' (cross_mark @ '' Failed to create function: list index out of range'')"
    "\<not> py_in ''notaurl''
         (cross_mark @ '' Failed to create function: list index out of range'')"
    by (simp_all add: py_in_def cross_mark_def sublist_code
        del: sublist_Nil_left sublist_Cons_Nil)
  from 1 2 3 4 show ?thesis
    by (intro conjI)
qed

text \<open>
  C5. A call that leaves both \<open>api_url\<close> and \<open>api_host\<close> at their default
  \<open>None\<close> does not succeed: the host expression calls \<open>split\<close> on \<open>None\<close>, and the
  call returns the failure message of that \<open>AttributeError\<close> with no file touched.
\<close>

theorem create_tool_defaults_fail:
  "create_tool fs function_name purpose None None api_key_env =
     (fs, Inr (cross_mark @ '' Failed to create function: '' @ sq @ ''NoneType'' @ sq
               @ '' object has no attribute '' @ sq @ ''split'' @ sq))"
  by (simp add: create_tool_def create_tool_body_def function_code_def host_value_def)

text \<open>
  What does hold without a URL: with a non-empty \<open>api_host\<close> the definition is
  rendered with the placeholder endpoint and that host, whatever \<open>api_url\<close> is.
\<close>

lemma function_code_explicit_host:
  "truthy api_host \<Longrightarrow>
   function_code function_name purpose api_url api_host api_key_env =
     Inr (render_template function_name purpose (url_value api_url) (str_opt api_key_env)
            (the api_host))"
  by (simp add: function_code_def host_value_def)

lemma url_value_placeholder: "url_value None = ''https://example.com/api''"
  by (simp add: url_value_def)

section \<open>Properties of decoding\<close>

lemma utf8_step_Inr_cases:
  assumes "utf8_step (c # cs) = Inr (n, rest)"
  obtains (one) "(of_char c :: nat) < 0x80" "n = 1" "rest = cs"
  | (two) c2 where "\<not> (of_char c :: nat) < 0x80" "\<not> (of_char c :: nat) < 0xC2"
      "(of_char c :: nat) < 0xE0" "cs = c2 # rest" "is_continuation c2" "n = 2"
  | (three) c2 c3 where "\<not> (of_char c :: nat) < 0x80" "\<not> (of_char c :: nat) < 0xC2"
      "\<not> (of_char c :: nat) < 0xE0" "(of_char c :: nat) < 0xF0" "cs = c2 # c3 # rest"
      "is_continuation c2"
      "\<not> (if (of_char c2 :: nat) < 0xA0 then (of_char c :: nat) = 0xE0
          else (of_char c :: nat) = 0xED)"
      "is_continuation c3" "n = 3"
  | (four) c2 c3 c4 where "\<not> (of_char c :: nat) < 0x80" "\<not> (of_char c :: nat) < 0xC2"
      "\<not> (of_char c :: nat) < 0xE0" "\<not> (of_char c :: nat) < 0xF0"
      "(of_char c :: nat) < 0xF5" "cs = c2 # c3 # c4 # rest" "is_continuation c2"
      "\<not> (if (of_char c2 :: nat) < 0x90 then (of_char c :: nat) = 0xF0
          else (of_char c :: nat) = 0xF4)"
      "is_continuation c3" "is_continuation c4" "n = 4"
  using assms
  by (auto simp: utf8_step_def Let_def split: list.splits if_splits)

lemma utf8_step_append:
  assumes "utf8_step (c # cs) = Inr (n, rest)"
  shows "utf8_step (c # cs @ ys) = Inr (n, rest @ ys)"
  using assms
  by (cases rule: utf8_step_Inr_cases) (simp_all add: utf8_step_def Let_def)

lemma utf8_step_before_ascii:
  assumes "utf8_step (c # cs @ a # ys) = Inr (n, rest')" and "(of_char a :: nat) < 0x80"
  shows "\<exists>rest. utf8_step (c # cs) = Inr (n, rest) \<and> rest' = rest @ a # ys"
  using assms(1)
proof (cases rule: utf8_step_Inr_cases)
  case one
  then show ?thesis by (simp add: utf8_step_def Let_def)
next
  case (two c2)
  from two(4,5) assms(2) obtain cs' where "cs = c2 # cs'" "rest' = cs' @ a # ys"
    by (cases cs) (auto simp: is_continuation_def)
  with two show ?thesis by (simp add: utf8_step_def Let_def)
next
  case (three c2 c3)
  from three(5,6,8) assms(2) obtain cs' where "cs = c2 # c3 # cs'" "rest' = cs' @ a # ys"
    by (cases cs; cases "tl cs") (auto simp: is_continuation_def)
  with three show ?thesis by (simp add: utf8_step_def Let_def)
next
  case (four c2 c3 c4)
  from four(6,7,9,10) assms(2) obtain cs' where "cs = c2 # c3 # c4 # cs'" "rest' = cs' @ a # ys"
    by (cases cs; cases "tl cs"; cases "tl (tl cs)") (auto simp: is_continuation_def)
  with four show ?thesis by (simp add: utf8_step_def Let_def)
qed

text \<open>Whether the bytes decode does not depend on the offset the scan starts from.\<close>

lemma utf8_scan_pos: "(utf8_scan p s = None) = (utf8_scan q s = None)"
proof (induction p s arbitrary: q rule: utf8_scan.induct)
  case (1 pos)
  show ?case by simp
next
  case (2 pos c cs)
  show ?case
  proof (cases "utf8_step (c # cs)")
    case (Inl e)
    then show ?thesis by (simp split: prod.splits)
  next
    case (Inr v)
    obtain n rest where v: "v = (n, rest)" by (cases v)
    from 2 [OF Inr [unfolded v] refl, of "q + n"] Inr v show ?thesis by simp
  qed
qed

lemma utf8_scan_append:
  "utf8_scan p xs = None \<Longrightarrow> (utf8_scan q (xs @ ys) = None) = (utf8_scan r ys = None)"
proof (induction p xs arbitrary: q rule: utf8_scan.induct)
  case (1 pos)
  show ?case using utf8_scan_pos [of q ys r] by simp
next
  case (2 pos c cs)
  from 2(2) obtain n rest where s: "utf8_step (c # cs) = Inr (n, rest)"
    and v: "utf8_scan (pos + n) rest = None"
    by (auto split: sum.splits prod.splits)
  from utf8_step_append [OF s, of ys] 2(1) [OF s refl v, of "q + n"]
  show ?case by simp
qed

lemma utf8_scan_before_ascii:
  "utf8_scan p (xs @ a # ys) = None \<Longrightarrow> (of_char a :: nat) < 0x80 \<Longrightarrow> utf8_scan q xs = None"
proof (induction q xs arbitrary: p rule: utf8_scan.induct)
  case (1 pos)
  show ?case by simp
next
  case (2 pos c cs)
  from 2(2) obtain n rest' where s: "utf8_step (c # cs @ a # ys) = Inr (n, rest')"
    and v: "utf8_scan (p + n) rest' = None"
    by (auto split: sum.splits prod.splits)
  from utf8_step_before_ascii [OF s 2(3)] obtain rest where
    r: "utf8_step (c # cs) = Inr (n, rest)" "rest' = rest @ a # ys"
    by blast
  from 2(1) [OF r(1) refl v [unfolded r(2)] 2(3)] r(1)
  show ?case by simp
qed

lemma well_formed_Nil: "well_formed []"
  by (simp add: well_formed_def)

lemma well_formed_ascii_Cons:
  "(of_char a :: nat) < 0x80 \<Longrightarrow> well_formed (a # s) = well_formed s"
  using utf8_scan_pos [of 1 s 0] by (simp add: well_formed_def utf8_step_def)

lemma well_formed_append: "well_formed xs \<Longrightarrow> well_formed ys \<Longrightarrow> well_formed (xs @ ys)"
  using utf8_scan_append [of 0 xs 0 ys 0] by (simp add: well_formed_def)

lemma well_formed_split:
  assumes "well_formed (xs @ a # ys)" and "(of_char a :: nat) < 0x80"
  shows "well_formed xs \<and> well_formed (a # ys)"
proof -
  from assms have xs: "utf8_scan 0 xs = None"
    unfolding well_formed_def by (rule utf8_scan_before_ascii)
  from utf8_scan_append [OF xs, of 0 "a # ys" 0] assms(1) xs show ?thesis
    by (simp add: well_formed_def)
qed

lemma well_formed_ascii_prefix:
  "\<forall>a\<in>set w. (of_char a :: nat) < 0x80 \<Longrightarrow> well_formed (w @ s) = well_formed s"
  by (induction w) (simp_all add: well_formed_ascii_Cons)

lemma decode_text_well_formed:
  "well_formed s \<Longrightarrow> decode_text s = Inr (universal_newlines s)"
  by (simp add: decode_text_def well_formed_def)

lemma decode_text_Inr:
  "decode_text s = Inr a \<Longrightarrow> well_formed s \<and> a = universal_newlines s"
  by (auto simp: decode_text_def well_formed_def split: option.splits)

lemma well_formed_universal_newlines_gen:
  "well_formed (pre @ s) \<Longrightarrow> well_formed (pre @ universal_newlines s)"
proof (induction s arbitrary: pre rule: universal_newlines.induct)
  case 1
  then show ?case by simp
next
  case (2 c)
  show ?case
  proof (cases "c = CHR 0x0D")
    case True
    with 2 have "well_formed pre"
      using well_formed_split [of pre c "[]"] by simp
    then have "well_formed (pre @ [CHR 0x0A])"
      by (intro well_formed_append) (simp_all add: well_formed_ascii_Cons well_formed_Nil)
    with True show ?thesis by simp
  next
    case False
    with 2 show ?thesis by simp
  qed
next
  case (3 c d r)
  show ?case
  proof (cases "c = CHR 0x0D")
    case cr: True
    with 3(4) have pre: "well_formed pre" and rest: "well_formed (d # r)"
      using well_formed_split [of pre c "d # r"] by (simp_all add: well_formed_ascii_Cons)
    have lf: "well_formed (pre @ [CHR 0x0A])"
      using pre by (intro well_formed_append) (simp_all add: well_formed_ascii_Cons well_formed_Nil)
    show ?thesis
    proof (cases "d = CHR 0x0A")
      case True
      with rest have "well_formed r"
        by (simp add: well_formed_ascii_Cons)
      with lf have "well_formed ((pre @ [CHR 0x0A]) @ r)"
        by (rule well_formed_append)
      from 3(1) [OF cr True this] cr True show ?thesis by simp
    next
      case False
      from lf rest have "well_formed ((pre @ [CHR 0x0A]) @ d # r)"
        by (rule well_formed_append)
      from 3(2) [OF cr False this] cr False show ?thesis by simp
    qed
  next
    case False
    from 3(4) have "well_formed ((pre @ [c]) @ d # r)" by simp
    from 3(3) [OF False this] False show ?thesis by simp
  qed
qed

lemma well_formed_universal_newlines:
  "well_formed s \<Longrightarrow> well_formed (universal_newlines s)"
  using well_formed_universal_newlines_gen [of "[]" s] by simp

lemma universal_newlines_no_cr: "CHR 0x0D \<notin> set (universal_newlines s)"
  by (induction s rule: universal_newlines.induct) auto

lemma universal_newlines_id: "CHR 0x0D \<notin> set s \<Longrightarrow> universal_newlines s = s"
  by (induction s rule: universal_newlines.induct) auto

lemma well_formed_str_replace_gen:
  assumes "well_formed new" and "old \<noteq> []" and "\<forall>a\<in>set old. (of_char a :: nat) < 0x80"
  shows "well_formed (pre @ s) \<Longrightarrow> well_formed (pre @ str_replace s old new)"
  using assms
proof (induction s old new arbitrary: pre rule: str_replace.induct)
  case (1 old new)
  then show ?case by simp
next
  case (2 c cs old new)
  show ?case
  proof (cases "prefix old (c # cs)")
    case True
    then obtain rest where rest: "c # cs = old @ rest"
      by (auto simp: prefix_def)
    then have d: "drop (length old) (c # cs) = rest"
      by simp
    from 2(6) obtain a old' where old: "old = a # old'"
      by (cases old) auto
    with 2(7) have a: "(of_char a :: nat) < 0x80"
      by simp
    from 2(4) rest old have "well_formed (pre @ a # old' @ rest)"
      by simp
    from well_formed_split [OF this a] have pre: "well_formed pre" and "well_formed (old @ rest)"
      by (simp_all add: old)
    with 2(7) have "well_formed rest"
      by (simp add: well_formed_ascii_prefix)
    then have "well_formed ([] @ drop (length old) (c # cs))"
      by (simp add: d)
    from 2(2) [OF 2(6) True this 2(5) 2(6) 2(7)]
    have "well_formed (str_replace (drop (length old) (c # cs)) old new)"
      by simp
    with pre 2(5) have "well_formed (pre @ new @ str_replace (drop (length old) (c # cs)) old new)"
      by (intro well_formed_append)
    with 2(6) True show ?thesis by simp
  next
    case False
    from 2(4) have "well_formed ((pre @ [c]) @ cs)" by simp
    from 2(3) [OF 2(6) False this 2(5) 2(6) 2(7)] 2(6) False show ?thesis by simp
  qed
qed

lemma well_formed_str_replace:
  "well_formed s \<Longrightarrow> well_formed new \<Longrightarrow> old \<noteq> [] \<Longrightarrow>
   \<forall>a\<in>set old. (of_char a :: nat) < 0x80 \<Longrightarrow> well_formed (str_replace s old new)"
  using well_formed_str_replace_gen [of new old "[]" s] by simp

lemma set_str_replace: "old \<noteq> [] \<Longrightarrow> set (str_replace s old new) \<subseteq> set s \<union> set new"
proof (induction s old new rule: str_replace.induct)
  case (1 old new)
  then show ?case by simp
next
  case (2 c cs old new)
  have "set (drop (length old) (c # cs)) \<subseteq> set (c # cs)"
    by (rule set_drop_subset)
  with 2 show ?case by (auto split: if_splits)
qed

lemma well_formed_patch_roster:
  assumes "well_formed a" and "well_formed fn"
  shows "well_formed (patch_roster fn a)"
proof -
  have "well_formed '',''"
    by (simp add: well_formed_ascii_Cons well_formed_Nil)
  with assms(2) have c: "well_formed (fn @ '','')"
    by (rule well_formed_append)
  then have 1: "well_formed (''from tools import '' @ fn @ '','')"
    by (simp add: well_formed_ascii_Cons)
  from c have 2: "well_formed (''tools=['' @ nl @ ''                '' @ fn @ '','')"
    by (simp add: well_formed_ascii_Cons nl_def)
  have "well_formed (insert_import fn a)"
    using assms(1) 1 by (simp add: insert_import_def well_formed_str_replace)
  then show ?thesis
    using 2 by (simp add: patch_roster_def insert_in_tools_list_def well_formed_str_replace)
qed

lemma no_cr_patch_roster:
  assumes "CHR 0x0D \<notin> set a" and "CHR 0x0D \<notin> set fn"
  shows "CHR 0x0D \<notin> set (patch_roster fn a)"
proof -
  have "set (insert_import fn a) \<subseteq> set a \<union> set (''from tools import '' @ fn @ '','')"
    using set_str_replace [of "''from tools import''" a "''from tools import '' @ fn @ '',''"]
    by (auto simp: insert_import_def)
  with assms have i: "CHR 0x0D \<notin> set (insert_import fn a)"
    by auto
  have "set (patch_roster fn a) \<subseteq> set (insert_import fn a)
          \<union> set (''tools=['' @ nl @ ''                '' @ fn @ '','')"
    using set_str_replace [of "''tools=[''" "insert_import fn a"
        "''tools=['' @ nl @ ''                '' @ fn @ '',''"]
    by (auto simp: patch_roster_def insert_in_tools_list_def)
  with i assms(2) show ?thesis
    by (auto simp: nl_def)
qed

lemma example_agent_decodes: "decode_text example_agent = Inr example_agent"
proof -
  have "well_formed example_agent"
    by (simp add: example_agent_def nl_def well_formed_ascii_Cons well_formed_Nil)
  moreover have "CHR 0x0D \<notin> set example_agent"
    by (simp add: example_agent_def nl_def)
  ultimately show ?thesis
    by (simp add: decode_text_well_formed universal_newlines_id)
qed

lemma example_registered_decodes:
  "decode_text (''from tools import get_joke, get_weather, search_web'' @ nl
       @ ''agent = Agent(tools=[get_weather, search_web])'' @ nl) =
     Inr (''from tools import get_joke, get_weather, search_web'' @ nl
       @ ''agent = Agent(tools=[get_weather, search_web])'' @ nl)"
proof -
  have "well_formed (''from tools import get_joke, get_weather, search_web'' @ nl
       @ ''agent = Agent(tools=[get_weather, search_web])'' @ nl)"
    by (simp add: nl_def well_formed_ascii_Cons well_formed_Nil)
  moreover have "CHR 0x0D \<notin> set (''from tools import get_joke, get_weather, search_web'' @ nl
       @ ''agent = Agent(tools=[get_weather, search_web])'' @ nl)"
    by (simp add: nl_def)
  ultimately show ?thesis
    by (simp add: decode_text_well_formed universal_newlines_id)
qed

section \<open>Properties of the registrar: the order of the writes\<close>

lemma create_tool_body_cases:
  "(\<exists>e. create_tool_body fs fn p u h k = ([fs], Inl e))
   \<or> (\<exists>code f e. function_code fn p u h k = Inr code
        \<and> open_append (tools_py fs) ''tools.py'' = Inr f
        \<and> create_tool_body fs fn p u h k =
            ([fs, fs\<lparr>tools_py := Some f\<rparr>,
              fs\<lparr>tools_py := Some (f\<lparr>content := content f @ code @ nl\<rparr>)\<rparr>], Inl e))
   \<or> (\<exists>code f a g. function_code fn p u h k = Inr code
        \<and> open_append (tools_py fs) ''tools.py'' = Inr f
        \<and> open_read (agent_py fs) ''agent.py'' = Inr a
        \<and> open_write (agent_py fs) ''agent.py'' = Inr g
        \<and> create_tool_body fs fn p u h k =
            ([fs, fs\<lparr>tools_py := Some f\<rparr>,
              fs\<lparr>tools_py := Some (f\<lparr>content := content f @ code @ nl\<rparr>)\<rparr>,
              fs\<lparr>tools_py := Some (f\<lparr>content := content f @ code @ nl\<rparr>),
                 agent_py := Some g\<rparr>,
              fs\<lparr>tools_py := Some (f\<lparr>content := content f @ code @ nl\<rparr>),
                 agent_py := Some (g\<lparr>content := patch_roster fn a\<rparr>)\<rparr>],
             Inr (success_message fn)))"
  by (simp add: create_tool_body_def Let_def split: sum.splits)

lemma example_function_code:
  "function_code ''get_joke'' ''Tell a joke'' (Some ''https://api.example.com/v1/data'') None
     (Some ''RAPIDAPI_KEY'') = Inr example_code"
  by (simp add: function_code_def host_value_def list_index_def url_value_def example_code_def)

lemma example_patch:
  "patch_roster ''get_joke'' example_agent =
     ''from tools import get_joke, get_weather, search_web'' @ nl
       @ ''agent = Agent(tools=[get_weather, search_web])'' @ nl"
  by (simp add: patch_roster_def insert_import_def insert_in_tools_list_def py_in_def
      example_agent_def nl_def sublist_code del: sublist_Nil_left sublist_Cons_Nil)

lemma example_trace:
  "fst (create_tool_body example_fs ''get_joke'' ''Tell a joke''
         (Some ''https://api.example.com/v1/data'') None (Some ''RAPIDAPI_KEY'')) =
     [example_fs, example_fs,
      example_fs\<lparr>tools_py := Some \<lparr>content = ''import os'' @ nl @ example_code @ nl,
                                    readable = True, writable = True\<rparr>\<rparr>,
      example_fs\<lparr>tools_py := Some \<lparr>content = ''import os'' @ nl @ example_code @ nl,
                                    readable = True, writable = True\<rparr>,
                 agent_py := Some \<lparr>content = [], readable = True, writable = True\<rparr>\<rparr>,
      example_fs_registered]"
  using example_function_code example_patch example_agent_decodes
  by (simp add: create_tool_body_def open_append_def open_read_def open_write_def Let_def
      example_fs_def example_fs_registered_def)

text \<open>
  C6. The states of the file system that a run of the registrar goes through start at the
  initial one and end at the one \<open>create_tool\<close> leaves behind. Whenever the run gets
  past the write of \<open>tools.py\<close>, the state right after that write (the third of the
  sequence) is the initial state with the new definition appended to the store and
  nothing else changed, so a run cut off there leaves the store with the definition and
  the roster as it was. Every state in which \<open>agent.py\<close> differs from the initial one
  comes later than that, and in all states from there up to it the store holds the
  appended definition: no state has a changed roster without the definition in the store.
\<close>

theorem store_written_before_roster:
  "(let trace = fst (create_tool_body fs function_name purpose api_url api_host api_key_env)
    in hd trace = fs
     \<and> fst (create_tool fs function_name purpose api_url api_host api_key_env) = last trace
     \<and> (2 < length trace \<longrightarrow>
          (\<exists>code f. function_code function_name purpose api_url api_host api_key_env = Inr code
             \<and> open_append (tools_py fs) ''tools.py'' = Inr f
             \<and> trace ! 2 = fs\<lparr>tools_py := Some (f\<lparr>content := content f @ code @ nl\<rparr>)\<rparr>))
     \<and> (\<forall>i < length trace. agent_py (trace ! i) \<noteq> agent_py fs \<longrightarrow>
          2 < i \<and> (\<forall>j. 2 \<le> j \<and> j \<le> i \<longrightarrow> tools_py (trace ! j) = tools_py (trace ! 2))))"
proof -
  consider (render) e where
      "create_tool_body fs function_name purpose api_url api_host api_key_env = ([fs], Inl e)"
    | (store_only) code f e where
      "function_code function_name purpose api_url api_host api_key_env = Inr code"
      "open_append (tools_py fs) ''tools.py'' = Inr f"
      "create_tool_body fs function_name purpose api_url api_host api_key_env =
         ([fs, fs\<lparr>tools_py := Some f\<rparr>,
           fs\<lparr>tools_py := Some (f\<lparr>content := content f @ code @ nl\<rparr>)\<rparr>], Inl e)"
    | (both) code f a g where
      "function_code function_name purpose api_url api_host api_key_env = Inr code"
      "open_append (tools_py fs) ''tools.py'' = Inr f"
      "create_tool_body fs function_name purpose api_url api_host api_key_env =
         ([fs, fs\<lparr>tools_py := Some f\<rparr>,
           fs\<lparr>tools_py := Some (f\<lparr>content := content f @ code @ nl\<rparr>)\<rparr>,
           fs\<lparr>tools_py := Some (f\<lparr>content := content f @ code @ nl\<rparr>), agent_py := Some g\<rparr>,
           fs\<lparr>tools_py := Some (f\<lparr>content := content f @ code @ nl\<rparr>),
              agent_py := Some (g\<lparr>content := patch_roster function_name a\<rparr>)\<rparr>],
          Inr (success_message function_name))"
    using create_tool_body_cases [of fs function_name purpose api_url api_host api_key_env]
    by blast
  then show ?thesis
  proof cases
    case render
    then show ?thesis
      by (simp add: create_tool_def)
  next
    case store_only
    then show ?thesis
      by (auto simp: create_tool_def nth_Cons')
  next
    case both
    then show ?thesis
      by (auto simp: create_tool_def nth_Cons')
  qed
qed

theorem store_written_before_roster_witness:
  "fst (create_tool_body example_fs ''get_joke'' ''Tell a joke''
         (Some ''https://api.example.com/v1/data'') None (Some ''RAPIDAPI_KEY'')) ! 2 =
     example_fs\<lparr>tools_py := Some \<lparr>content = ''import os'' @ nl @ example_code @ nl,
                                   readable = True, writable = True\<rparr>\<rparr>
   \<and> tools_py (fst (create_tool_body example_fs ''get_joke'' ''Tell a joke''
         (Some ''https://api.example.com/v1/data'') None (Some ''RAPIDAPI_KEY'')) ! 4) =
     tools_py (fst (create_tool_body example_fs ''get_joke'' ''Tell a joke''
         (Some ''https://api.example.com/v1/data'') None (Some ''RAPIDAPI_KEY'')) ! 2)"
proof -
  let ?trace = "fst (create_tool_body example_fs ''get_joke'' ''Tell a joke''
         (Some ''https://api.example.com/v1/data'') None (Some ''RAPIDAPI_KEY''))"
  have len: "2 < length ?trace" "4 < length ?trace"
    by (simp_all add: example_trace)
  have "?trace ! 4 = example_fs_registered"
    by (simp add: example_trace)
  moreover have "agent_py example_fs_registered \<noteq> agent_py example_fs"
    by (simp add: example_fs_registered_def example_fs_def example_agent_def)
  ultimately have changed: "agent_py (?trace ! 4) \<noteq> agent_py example_fs"
    by simp
  have app: "open_append (tools_py example_fs) ''tools.py'' =
      Inr \<lparr>content = ''import os'' @ nl, readable = True, writable = True\<rparr>"
    by (simp add: open_append_def example_fs_def)
  note t = store_written_before_roster [of example_fs "''get_joke''" "''Tell a joke''"
      "Some ''https://api.example.com/v1/data''" None "Some ''RAPIDAPI_KEY''",
      unfolded Let_def]
  from t have "2 < length ?trace \<longrightarrow>
      (\<exists>code f. function_code ''get_joke'' ''Tell a joke''
            (Some ''https://api.example.com/v1/data'') None (Some ''RAPIDAPI_KEY'') = Inr code
         \<and> open_append (tools_py example_fs) ''tools.py'' = Inr f
         \<and> ?trace ! 2 = example_fs\<lparr>tools_py := Some (f\<lparr>content := content f @ code @ nl\<rparr>)\<rparr>)"
    by (elim conjE)
  with len(1) obtain code f where
    "function_code ''get_joke'' ''Tell a joke''
            (Some ''https://api.example.com/v1/data'') None (Some ''RAPIDAPI_KEY'') = Inr code"
    "open_append (tools_py example_fs) ''tools.py'' = Inr f"
    "?trace ! 2 = example_fs\<lparr>tools_py := Some (f\<lparr>content := content f @ code @ nl\<rparr>)\<rparr>"
    by (elim impE exE conjE)
  with example_function_code app
  have 1: "?trace ! 2 =
      example_fs\<lparr>tools_py := Some \<lparr>content = ''import os'' @ nl @ example_code @ nl,
                                    readable = True, writable = True\<rparr>\<rparr>"
    by simp
  from t have "\<forall>i < length ?trace. agent_py (?trace ! i) \<noteq> agent_py example_fs \<longrightarrow>
          2 < i \<and> (\<forall>j. 2 \<le> j \<and> j \<le> i \<longrightarrow> tools_py (?trace ! j) = tools_py (?trace ! 2))"
    by (elim conjE)
  from this [rule_format, OF len(2) changed]
  have "\<forall>j. 2 \<le> j \<and> j \<le> 4 \<longrightarrow> tools_py (?trace ! j) = tools_py (?trace ! 2)"
    by (rule conjunct2)
  from this [rule_format, of 4]
  have 2: "tools_py (?trace ! 4) = tools_py (?trace ! 2)"
    by simp
  from 1 2 show ?thesis
    by (rule conjI)
qed

section \<open>Properties of the registrar: the roster and repeated registration\<close>

text \<open>
  A call succeeds exactly when the definition can be rendered, the store can be opened for
  appending, and the roster exists, can be read, decodes and can be written; it then
  leaves the store with the definition appended and the roster patched.
\<close>

lemma create_tool_success:
  assumes "function_code fn p u h k = Inr code"
    and "open_append (tools_py fs) ''tools.py'' = Inr f"
    and "agent_py fs = Some g" and "readable g" and "writable g"
    and "decode_text (content g) = Inr a"
  shows "create_tool fs fn p u h k =
           (fs\<lparr>tools_py := Some (f\<lparr>content := content f @ code @ nl\<rparr>),
               agent_py := Some (g\<lparr>content := patch_roster fn a\<rparr>)\<rparr>,
            Inr (success_message fn))"
  using assms
  by (simp add: create_tool_def create_tool_body_def open_read_def open_write_def Let_def)

lemma create_tool_success_inv:
  assumes "snd (create_tool fs fn p u h k) = Inr (success_message fn)"
  shows "\<exists>code f g a. function_code fn p u h k = Inr code
           \<and> open_append (tools_py fs) ''tools.py'' = Inr f \<and> writable f
           \<and> agent_py fs = Some g \<and> readable g \<and> writable g
           \<and> decode_text (content g) = Inr a"
  using assms
  by (auto simp: create_tool_def create_tool_body_def open_read_def open_write_def
      open_append_def Let_def success_message_def check_mark_def cross_mark_def
      split: sum.splits option.splits if_splits)

lemma example_first_call:
  "create_tool example_fs ''get_joke'' ''Tell a joke'' (Some ''https://api.example.com/v1/data'')
     None (Some ''RAPIDAPI_KEY'') = (example_fs_registered, Inr (success_message ''get_joke''))"
proof -
  have "open_append (tools_py example_fs) ''tools.py'' =
          Inr \<lparr>content = ''import os'' @ nl, readable = True, writable = True\<rparr>"
    by (simp add: open_append_def example_fs_def)
  from create_tool_success [OF example_function_code this,
      of "\<lparr>content = example_agent, readable = True, writable = True\<rparr>" example_agent]
  show ?thesis
    by (simp add: example_fs_def example_fs_registered_def example_patch example_agent_decodes)
qed

lemma example_fresh:
  "\<not> py_in ''get_joke'' (''import os'' @ nl)" "\<not> py_in ''get_joke'' example_agent"
  by (simp_all add: py_in_def example_agent_def nl_def sublist_code
      del: sublist_Nil_left sublist_Cons_Nil)

text \<open>
  C1. The name \<open>get_joke\<close> occurs neither in the store nor in the roster of the example
  directory, and the call registering it returns the success message. Afterwards the
  store holds the one new definition and the roster holds the import reference, but the
  list after \<open>tools=[\<close> is as before: it has no entry for \<open>get_joke\<close>. The guard of
  the second substitution looks for the name in the text that already carries the new
  import.
\<close>

theorem create_tool_roster_list_not_updated:
  "\<not> py_in ''get_joke'' (''import os'' @ nl) \<and> \<not> py_in ''get_joke'' example_agent
   \<and> create_tool example_fs ''get_joke'' ''Tell a joke'' (Some ''https://api.example.com/v1/data'')
        None (Some ''RAPIDAPI_KEY'') =
      (\<lparr>tools_py = Some \<lparr>content = ''import os'' @ nl @ example_code @ nl,
                          readable = True, writable = True\<rparr>,
        agent_py = Some \<lparr>content = ''from tools import get_joke, get_weather, search_web'' @ nl
                            @ ''agent = Agent(tools=[get_weather, search_web])'' @ nl,
                          readable = True, writable = True\<rparr>\<rparr>,
       Inr (success_message ''get_joke''))"
  using example_fresh example_first_call
  by (simp add: example_fs_registered_def)

text \<open>
  The defect is not particular to the example. \<open>replace\<close> puts \<open>new\<close> wherever
  \<open>old\<close> stood, so once the import has been inserted the name occurs in the text and
  the guard of the list substitution is false.
\<close>

lemma sublist_str_replace:
  "old \<noteq> [] \<Longrightarrow> sublist old s \<Longrightarrow> sublist new (str_replace s old new)"
proof (induction s old new rule: str_replace.induct)
  case (1 old new)
  then show ?case by simp
next
  case (2 c cs old new)
  show ?case
  proof (cases "prefix old (c # cs)")
    case True
    with 2(4) show ?thesis by simp
  next
    case False
    with 2(5) have "sublist old cs"
      by (simp add: sublist_Cons_right)
    with 2(3,4) False have "sublist new (str_replace cs old new)"
      by simp
    then have "sublist new (c # str_replace cs old new)"
      by (simp add: sublist_Cons_right)
    with 2(4) False show ?thesis by simp
  qed
qed

lemma insert_import_contains:
  assumes "py_in ''from tools import'' a"
  shows "py_in (''from tools import '' @ fn) (insert_import fn a)"
proof (cases "py_in (''from tools import '' @ fn) a")
  case True
  then show ?thesis
    by (simp add: insert_import_def)
next
  case False
  have "sublist (''from tools import '' @ fn @ '','')
          (str_replace a ''from tools import'' (''from tools import '' @ fn @ '',''))"
    using assms by (intro sublist_str_replace) (simp_all add: py_in_def)
  moreover have "sublist (''from tools import '' @ fn) (''from tools import '' @ fn @ '','')"
    using sublist_append_rightI [of "''from tools import '' @ fn" "'',''"] by simp
  ultimately have "sublist (''from tools import '' @ fn)
          (str_replace a ''from tools import'' (''from tools import '' @ fn @ '',''))"
    by (rule sublist_order.order_trans [rotated])
  with False show ?thesis
    by (simp add: insert_import_def py_in_def)
qed

lemma import_ref_contains_name: "py_in (''from tools import '' @ fn) b \<Longrightarrow> py_in fn b"
  using sublist_append_leftI [of fn "''from tools import ''"]
  unfolding py_in_def by (rule sublist_order.order_trans)

lemma patch_roster_import_only:
  assumes "py_in ''from tools import'' a"
  shows "patch_roster fn a = insert_import fn a"
  using import_ref_contains_name [OF insert_import_contains [OF assms]]
  by (simp add: patch_roster_def insert_in_tools_list_def)

lemma str_replace_absent: "\<not> sublist old s \<Longrightarrow> str_replace s old new = s"
proof (induction s old new rule: str_replace.induct)
  case (1 old new)
  then show ?case by auto
next
  case (2 c cs old new)
  from 2(4) have "old \<noteq> []" and "\<not> prefix old (c # cs)" and "\<not> sublist old cs"
    by (auto simp: sublist_Cons_right)
  with 2(3) show ?case by simp
qed

text \<open>No roster gets both substitutions from one call.\<close>

lemma patch_roster_never_both:
  "patch_roster fn a = insert_import fn a \<or> patch_roster fn a = insert_in_tools_list fn a"
proof (cases "py_in ''from tools import'' a")
  case True
  then show ?thesis
    by (simp add: patch_roster_import_only)
next
  case False
  then have "insert_import fn a = a"
    by (simp add: insert_import_def py_in_def str_replace_absent)
  then show ?thesis
    by (simp add: patch_roster_def)
qed

lemma patch_roster_referenced:
  assumes "py_in (''from tools import '' @ fn) b"
  shows "patch_roster fn b = b"
  using assms import_ref_contains_name [OF assms]
  by (simp add: patch_roster_def insert_in_tools_list_def insert_import_def)

lemma patch_roster_twice:
  assumes "py_in ''from tools import'' a"
  shows "patch_roster fn (patch_roster fn a) = patch_roster fn a"
  using insert_import_contains [OF assms] patch_roster_import_only [OF assms]
  by (simp add: patch_roster_referenced)

lemma open_append_again: "writable f \<Longrightarrow> open_append (Some f) path = Inr f"
  by (simp add: open_append_def)

lemma function_code_defines:
  assumes "function_code fn p u h k = Inr code"
  shows "py_in (''async def '' @ fn @ ''(context: RunContext, query: str) -> str:'') code"
proof -
  from assms obtain host where
    code: "code = render_template fn p (url_value u) (str_opt k) host"
    by (auto simp: function_code_def split: sum.splits)
  have "\<exists>ps ss. render_template fn p (url_value u) (str_opt k) host =
          ps @ (''async def '' @ fn @ ''(context: RunContext, query: str) -> str:'') @ ss"
    unfolding render_template_def by (metis append.assoc)
  then show ?thesis
    by (simp add: code py_in_def sublist_def del: append_assoc)
qed

lemma create_tool_repeated:
  assumes first: "snd (create_tool fs fn p u h k) = Inr (success_message fn)"
    and wf: "well_formed fn"
    and render: "function_code fn p' u' h' k' = Inr code'"
  shows "\<exists>code t pre. function_code fn p u h k = Inr code
           \<and> tools_py (fst (create_tool fs fn p u h k)) = Some t
           \<and> content t = pre @ code @ nl
           \<and> snd (create_tool (fst (create_tool fs fn p u h k)) fn p' u' h' k') =
               Inr (success_message fn)
           \<and> tools_py (fst (create_tool (fst (create_tool fs fn p u h k)) fn p' u' h' k')) =
               Some (t\<lparr>content := content t @ code' @ nl\<rparr>)
           \<and> (\<forall>agent_code. open_read (agent_py fs) ''agent.py'' = Inr agent_code
                  \<and> py_in ''from tools import'' agent_code \<and> CHR 0x0D \<notin> set fn \<longrightarrow>
                agent_py (fst (create_tool (fst (create_tool fs fn p u h k)) fn p' u' h' k')) =
                  agent_py (fst (create_tool fs fn p u h k)))"
proof -
  from create_tool_success_inv [OF first]
  obtain code f g a where c: "function_code fn p u h k = Inr code"
    and f: "open_append (tools_py fs) ''tools.py'' = Inr f" "writable f"
    and g: "agent_py fs = Some g" "readable g" "writable g"
    and d: "decode_text (content g) = Inr a"
    by blast
  from decode_text_Inr [OF d] have a: "well_formed a" "CHR 0x0D \<notin> set a"
    by (simp_all add: well_formed_universal_newlines universal_newlines_no_cr)
  let ?P = "patch_roster fn a"
  let ?t = "f\<lparr>content := content f @ code @ nl\<rparr>"
  let ?g = "g\<lparr>content := ?P\<rparr>"
  let ?fs1 = "fs\<lparr>tools_py := Some ?t, agent_py := Some ?g\<rparr>"
  have one: "create_tool fs fn p u h k = (?fs1, Inr (success_message fn))"
    using c f(1) g d by (rule create_tool_success)
  have "well_formed ?P"
    using a(1) wf by (rule well_formed_patch_roster)
  then have d2: "decode_text (content ?g) = Inr (universal_newlines ?P)"
    by (simp add: decode_text_well_formed)
  have ap: "open_append (tools_py ?fs1) ''tools.py'' = Inr ?t"
    using f(2) by (simp add: open_append_again)
  have two: "create_tool ?fs1 fn p' u' h' k' =
      (?fs1\<lparr>tools_py := Some (?t\<lparr>content := content ?t @ code' @ nl\<rparr>),
             agent_py := Some (?g\<lparr>content := patch_roster fn (universal_newlines ?P)\<rparr>)\<rparr>,
       Inr (success_message fn))"
    using create_tool_success [OF render ap, of ?g "universal_newlines ?P"] g(2,3) d2
    by simp
  have roster: "patch_roster fn (universal_newlines ?P) = ?P"
    if "open_read (agent_py fs) ''agent.py'' = Inr agent_code" and "py_in ''from tools import'' agent_code"
      and "CHR 0x0D \<notin> set fn" for agent_code
  proof -
    from that(1) g d have "agent_code = a"
      by (simp add: open_read_def)
    with that(2) have "patch_roster fn ?P = ?P"
      by (simp add: patch_roster_twice)
    moreover have "universal_newlines ?P = ?P"
      using a(2) that(3) by (intro universal_newlines_id no_cr_patch_roster)
    ultimately show ?thesis
      by simp
  qed
  show ?thesis
    apply (rule exI [of _ code], rule exI [of _ ?t], rule exI [of _ "content f"])
    using c one two roster by auto
qed

lemma example_anchor: "py_in ''from tools import'' example_agent"
  by (simp add: py_in_def example_agent_def)

lemma example_registered_referenced:
  "py_in (''from tools import '' @ ''get_joke'')
     (''from tools import get_joke, get_weather, search_web'' @ nl
        @ ''agent = Agent(tools=[get_weather, search_web])'' @ nl)"
  by (simp add: py_in_def)

lemma example_second_call:
  "create_tool example_fs_registered ''get_joke'' ''Tell a joke''
      (Some ''https://api.example.com/v1/data'') None (Some ''RAPIDAPI_KEY'') =
    (example_fs_registered
       \<lparr>tools_py := Some \<lparr>content = ''import os'' @ nl @ example_code @ nl @ example_code @ nl,
                           readable = True, writable = True\<rparr>\<rparr>,
     Inr (success_message ''get_joke''))"
proof -
  have "open_append (tools_py example_fs_registered) ''tools.py'' =
          Inr \<lparr>content = ''import os'' @ nl @ example_code @ nl,
               readable = True, writable = True\<rparr>"
    by (simp add: open_append_def example_fs_registered_def)
  from create_tool_success [OF example_function_code this,
      of "\<lparr>content = ''from tools import get_joke, get_weather, search_web'' @ nl
                          @ ''agent = Agent(tools=[get_weather, search_web])'' @ nl,
                        readable = True, writable = True\<rparr>"
         "''from tools import get_joke, get_weather, search_web'' @ nl
                          @ ''agent = Agent(tools=[get_weather, search_web])'' @ nl"]
    patch_roster_referenced [OF example_registered_referenced] example_registered_decodes
  show ?thesis
    by (simp add: example_fs_registered_def)
qed

text \<open>
  C2, as the claim states it, fails. Registering \<open>get_joke\<close> in the example directory
  gives the directory \<open>example_fs_registered\<close>; registering it there a second time is
  not rejected: the call returns the success message again, and the store is changed, now
  holding the definition of \<open>get_joke\<close> twice.
\<close>

theorem create_tool_duplicate_counterexample:
  "create_tool example_fs ''get_joke'' ''Tell a joke'' (Some ''https://api.example.com/v1/data'')
       None (Some ''RAPIDAPI_KEY'') = (example_fs_registered, Inr (success_message ''get_joke''))
   \<and> snd (create_tool example_fs_registered ''get_joke'' ''Tell a joke''
            (Some ''https://api.example.com/v1/data'') None (Some ''RAPIDAPI_KEY''))
       = Inr (success_message ''get_joke'')
   \<and> tools_py (fst (create_tool example_fs_registered ''get_joke'' ''Tell a joke''
            (Some ''https://api.example.com/v1/data'') None (Some ''RAPIDAPI_KEY'')))
       = Some \<lparr>content = ''import os'' @ nl @ example_code @ nl @ example_code @ nl,
               readable = True, writable = True\<rparr>
   \<and> tools_py (fst (create_tool example_fs_registered ''get_joke'' ''Tell a joke''
            (Some ''https://api.example.com/v1/data'') None (Some ''RAPIDAPI_KEY'')))
       \<noteq> tools_py example_fs_registered"
  using example_first_call example_second_call
  by (simp add: example_fs_registered_def nl_def)

text \<open>
  C2, amended. The name is a string, so its bytes are well formed. When a call of the
  registrar with that name has succeeded, a second call with the same name, whether its
  other arguments are the same or not, is not rejected as long as its arguments render a
  definition: it returns the success message, and it appends the newly rendered
  definition to the store, whose text already ended with the definition of the first
  call. Both definitions declare a function of that name, so the store then holds two
  function bodies with the same name. When the roster, as the first call read it, held
  the anchor \<open>from tools import\<close> and the name has no carriage return, the second call
  leaves the roster as the first call left it.
\<close>

theorem create_tool_second_call_appends:
  assumes "snd (create_tool fs function_name purpose api_url api_host api_key_env) =
             Inr (success_message function_name)"
    and "well_formed function_name"
    and "function_code function_name purpose' api_url' api_host' api_key_env' = Inr code'"
  shows "\<exists>code t pre.
           function_code function_name purpose api_url api_host api_key_env = Inr code
           \<and> py_in (''async def '' @ function_name
                      @ ''(context: RunContext, query: str) -> str:'') code
           \<and> py_in (''async def '' @ function_name
                      @ ''(context: RunContext, query: str) -> str:'') code'
           \<and> tools_py (fst (create_tool fs function_name purpose api_url api_host api_key_env))
               = Some t
           \<and> content t = pre @ code @ nl
           \<and> snd (create_tool
                    (fst (create_tool fs function_name purpose api_url api_host api_key_env))
                    function_name purpose' api_url' api_host' api_key_env') =
               Inr (success_message function_name)
           \<and> tools_py (fst (create_tool
                    (fst (create_tool fs function_name purpose api_url api_host api_key_env))
                    function_name purpose' api_url' api_host' api_key_env')) =
               Some (t\<lparr>content := content t @ code' @ nl\<rparr>)
           \<and> (\<forall>agent_code. open_read (agent_py fs) ''agent.py'' = Inr agent_code
                  \<and> py_in ''from tools import'' agent_code \<and> CHR 0x0D \<notin> set function_name \<longrightarrow>
                agent_py (fst (create_tool
                    (fst (create_tool fs function_name purpose api_url api_host api_key_env))
                    function_name purpose' api_url' api_host' api_key_env')) =
                agent_py (fst (create_tool fs function_name purpose api_url api_host
                    api_key_env)))"
proof -
  from create_tool_repeated [OF assms]
  obtain code t pre where r:
    "function_code function_name purpose api_url api_host api_key_env = Inr code"
    "tools_py (fst (create_tool fs function_name purpose api_url api_host api_key_env)) = Some t"
    "content t = pre @ code @ nl"
    "snd (create_tool (fst (create_tool fs function_name purpose api_url api_host api_key_env))
          function_name purpose' api_url' api_host' api_key_env') =
       Inr (success_message function_name)"
    "tools_py (fst (create_tool
          (fst (create_tool fs function_name purpose api_url api_host api_key_env))
          function_name purpose' api_url' api_host' api_key_env')) =
       Some (t\<lparr>content := content t @ code' @ nl\<rparr>)"
    "\<forall>agent_code. open_read (agent_py fs) ''agent.py'' = Inr agent_code
        \<and> py_in ''from tools import'' agent_code \<and> CHR 0x0D \<notin> set function_name \<longrightarrow>
      agent_py (fst (create_tool
          (fst (create_tool fs function_name purpose api_url api_host api_key_env))
          function_name purpose' api_url' api_host' api_key_env')) =
      agent_py (fst (create_tool fs function_name purpose api_url api_host api_key_env))"
    by (elim exE conjE)
  from function_code_defines [OF r(1)] function_code_defines [OF assms(3)] r
  show ?thesis
    by (intro exI conjI)
qed

theorem create_tool_second_call_appends_witness:
  "snd (create_tool example_fs_registered ''get_joke'' ''Another joke'' None
          (Some ''jokes.example.com'') (Some ''RAPIDAPI_KEY'')) =
     Inr (success_message ''get_joke'')
   \<and> tools_py (fst (create_tool example_fs_registered ''get_joke'' ''Another joke'' None
          (Some ''jokes.example.com'') (Some ''RAPIDAPI_KEY''))) =
     Some \<lparr>content = ''import os'' @ nl @ example_code @ nl
             @ render_template ''get_joke'' ''Another joke'' ''https://example.com/api''
                 ''RAPIDAPI_KEY'' ''jokes.example.com'' @ nl,
           readable = True, writable = True\<rparr>
   \<and> agent_py (fst (create_tool example_fs_registered ''get_joke'' ''Another joke'' None
          (Some ''jokes.example.com'') (Some ''RAPIDAPI_KEY''))) =
     agent_py example_fs_registered"
proof -
  have 1: "snd (create_tool example_fs ''get_joke'' ''Tell a joke''
       (Some ''https://api.example.com/v1/data'') None (Some ''RAPIDAPI_KEY'')) =
       Inr (success_message ''get_joke'')"
    by (simp add: example_first_call)
  have 2: "well_formed ''get_joke''"
    by (simp add: well_formed_ascii_Cons well_formed_Nil)
  have 3: "function_code ''get_joke'' ''Another joke'' None (Some ''jokes.example.com'')
       (Some ''RAPIDAPI_KEY'') =
     Inr (render_template ''get_joke'' ''Another joke'' ''https://example.com/api''
            ''RAPIDAPI_KEY'' ''jokes.example.com'')"
    by (simp add: function_code_explicit_host url_value_placeholder)
  have 4: "open_read (agent_py example_fs) ''agent.py'' = Inr example_agent
      \<and> py_in ''from tools import'' example_agent \<and> CHR 0x0D \<notin> set ''get_joke''"
    by (simp add: open_read_def example_fs_def example_agent_decodes example_anchor)
  from create_tool_second_call_appends [OF 1 2 3]
  obtain code t pre where r:
    "tools_py (fst (create_tool example_fs ''get_joke'' ''Tell a joke''
       (Some ''https://api.example.com/v1/data'') None (Some ''RAPIDAPI_KEY''))) = Some t"
    "snd (create_tool (fst (create_tool example_fs ''get_joke'' ''Tell a joke''
       (Some ''https://api.example.com/v1/data'') None (Some ''RAPIDAPI_KEY'')))
       ''get_joke'' ''Another joke'' None (Some ''jokes.example.com'') (Some ''RAPIDAPI_KEY'')) =
     Inr (success_message ''get_joke'')"
    "tools_py (fst (create_tool (fst (create_tool example_fs ''get_joke'' ''Tell a joke''
       (Some ''https://api.example.com/v1/data'') None (Some ''RAPIDAPI_KEY'')))
       ''get_joke'' ''Another joke'' None (Some ''jokes.example.com'') (Some ''RAPIDAPI_KEY''))) =
     Some (t\<lparr>content := content t
             @ render_template ''get_joke'' ''Another joke'' ''https://example.com/api''
                 ''RAPIDAPI_KEY'' ''jokes.example.com'' @ nl\<rparr>)"
    "\<forall>agent_code. open_read (agent_py example_fs) ''agent.py'' = Inr agent_code
        \<and> py_in ''from tools import'' agent_code \<and> CHR 0x0D \<notin> set ''get_joke'' \<longrightarrow>
      agent_py (fst (create_tool (fst (create_tool example_fs ''get_joke'' ''Tell a joke''
         (Some ''https://api.example.com/v1/data'') None (Some ''RAPIDAPI_KEY'')))
         ''get_joke'' ''Another joke'' None (Some ''jokes.example.com'')
         (Some ''RAPIDAPI_KEY''))) =
      agent_py (fst (create_tool example_fs ''get_joke'' ''Tell a joke''
         (Some ''https://api.example.com/v1/data'') None (Some ''RAPIDAPI_KEY'')))"
    by (elim exE conjE)
  from r(4) [rule_format, OF 4] r(1,2,3)
  show ?thesis
    by (auto simp: example_first_call example_fs_registered_def)
qed

section \<open>Every tool returns a message\<close>

lemma get_weather_returns: "\<exists>m. get_weather requests_get city = Inr m"
  by (simp add: get_weather_def split: sum.splits)

lemma search_web_returns: "\<exists>m. search_web run query = Inr m"
  by (simp add: search_web_def split: sum.splits)

lemma send_email_returns: "\<exists>m. snd (send_email env to_email subject message cc_email) = Inr m"
  by (simp add: send_email_def split: prod.splits sum.splits)

lemma manage_notes_returns: "\<exists>m. snd (manage_notes notes_memory action note) = Inr m"
  by (simp add: manage_notes_def split: prod.splits sum.splits)

lemma manage_todo_body_returns: "\<exists>m. snd (manage_todo_body todo_list action task) = Inr m"
  by (simp add: manage_todo_body_def split: option.splits)

lemma manage_todo_returns: "\<exists>m. snd (manage_todo todo_list action task) = Inr m"
  by (simp add: manage_todo_def split: prod.splits sum.splits)

lemma create_tool_returns:
  "\<exists>m. snd (create_tool fs function_name purpose api_url api_host api_key_env) = Inr m"
  by (simp add: create_tool_def split: prod.splits sum.splits)

lemma example_missing_roster:
  "create_tool_body \<lparr>tools_py = None, agent_py = None\<rparr> ''get_joke'' ''Tell a joke''
        (Some ''https://api.example.com/v1/data'') None None =
      ([\<lparr>tools_py = None, agent_py = None\<rparr>,
        \<lparr>tools_py = Some \<lparr>content = [], readable = True, writable = True\<rparr>, agent_py = None\<rparr>,
        \<lparr>tools_py = Some \<lparr>content = render_template ''get_joke'' ''Tell a joke''
              ''https://api.example.com/v1/data'' ''None'' ''api.example.com'' @ nl,
            readable = True, writable = True\<rparr>, agent_py = None\<rparr>],
       Inl (no_such_file ''agent.py''))"
  by (simp add: create_tool_body_def function_code_def host_value_def list_index_def
      url_value_def open_append_def open_read_def Let_def)

text \<open>
  C7. Whatever the arguments, the state and the behaviour of the network, of the mail
  server and of the file system, each of the six tools returns a string and raises
  nothing: \<open>get_weather\<close>, \<open>search_web\<close>, \<open>send_email\<close>, \<open>manage_notes\<close>,
  \<open>manage_todo\<close> and \<open>create_tool\<close>. An exception raised inside the \<open>try\<close> block of
  a tool is answered with that tool's failure message; the body of \<open>manage_todo\<close> raises
  nothing at all.
\<close>

theorem tools_return_messages:
  "(\<exists>m. get_weather requests_get city = Inr m)
   \<and> (\<exists>m. search_web run query = Inr m)
   \<and> (\<exists>m. snd (send_email env to_email subject message cc_email) = Inr m)
   \<and> (\<exists>m. snd (manage_notes notes_memory action note) = Inr m)
   \<and> (\<exists>m. snd (manage_todo todo_list action task) = Inr m)
   \<and> (\<exists>m. snd (create_tool fs function_name purpose api_url api_host api_key_env) = Inr m)
   \<and> (\<forall>e. get_weather_body requests_get city = Inl e \<longrightarrow>
         get_weather requests_get city =
           Inr (''An error occurred while retrieving weather for '' @ city @ ''.''))
   \<and> (\<forall>e. search_web_body run query = Inl e \<longrightarrow>
         search_web run query =
           Inr (''An error occurred while searching the web for '' @ sq @ query @ sq @ ''.''))
   \<and> (\<forall>calls e. send_email_body env to_email subject message cc_email = (calls, Inl e) \<longrightarrow>
         send_email env to_email subject message cc_email = (calls, Inr (email_failure e)))
   \<and> (\<forall>g e. manage_notes_body notes_memory action note = (g, Inl e) \<longrightarrow>
         manage_notes notes_memory action note =
           (g, Inr (cross_mark @ '' Error managing notes: '' @ str_exn e)))
   \<and> (\<exists>m. snd (manage_todo_body todo_list action task) = Inr m)
   \<and> (\<forall>trace e.
         create_tool_body fs function_name purpose api_url api_host api_key_env = (trace, Inl e)
         \<longrightarrow> create_tool fs function_name purpose api_url api_host api_key_env =
               (last trace, Inr (cross_mark @ '' Failed to create function: '' @ str_exn e)))"
  using get_weather_returns [of requests_get city] search_web_returns [of run query]
    send_email_returns [of env to_email subject message cc_email]
    manage_notes_returns [of notes_memory action "note"]
    manage_todo_returns [of todo_list action task]
    manage_todo_body_returns [of todo_list action task]
    create_tool_returns [of fs function_name purpose api_url api_host api_key_env]
  by (simp add: get_weather_def search_web_def send_email_def manage_notes_def create_tool_def)

theorem tools_return_messages_witness:
  "get_weather (\<lambda>url. Inl (Exn OtherException ''connection refused'')) ''Paris'' =
     Inr ''An error occurred while retrieving weather for Paris.''
   \<and> search_web (\<lambda>q. Inl (Exn OtherException ''rate limited'')) ''cats'' =
     Inr (''An error occurred while searching the web for '' @ sq @ ''cats'' @ sq @ ''.'')
   \<and> send_email example_mail_env ''you@example.com'' ''Hi'' ''Hello'' None =
     ([Connect ''smtp.gmail.com'' 587, StartTLS, Login ''me@gmail.com'' ''secret''],
      Inr authentication_message)
   \<and> manage_notes None ''clear'' None =
     (None, Inr (cross_mark @ '' Error managing notes: name '' @ sq @ ''notes_memory'' @ sq
                 @ '' is not defined''))
   \<and> create_tool \<lparr>tools_py = None, agent_py = None\<rparr> ''get_joke'' ''Tell a joke''
        (Some ''https://api.example.com/v1/data'') None None =
     (\<lparr>tools_py = Some \<lparr>content = render_template ''get_joke'' ''Tell a joke''
           ''https://api.example.com/v1/data'' ''None'' ''api.example.com'' @ nl,
         readable = True, writable = True\<rparr>, agent_py = None\<rparr>,
      Inr (cross_mark @ '' Failed to create function: [Errno 2] No such file or directory: ''
           @ sq @ ''agent.py'' @ sq))"
proof -
  note t = tools_return_messages
    [of "\<lambda>url. Inl (Exn OtherException ''connection refused'')" "''Paris''"
        "\<lambda>q. Inl (Exn OtherException ''rate limited'')" "''cats''"
        example_mail_env "''you@example.com''" "''Hi''" "''Hello''" None
        None "''clear''" None
        _ _
        "\<lparr>tools_py = None, agent_py = None\<rparr>" "''get_joke''" "''Tell a joke''"
        "Some ''https://api.example.com/v1/data''" None None]
  have 1: "get_weather_body (\<lambda>url. Inl (Exn OtherException ''connection refused'')) ''Paris'' =
      Inl (Exn OtherException ''connection refused'')"
    by (simp add: get_weather_body_def)
  have 2: "search_web_body (\<lambda>q. Inl (Exn OtherException ''rate limited'')) ''cats'' =
      Inl (Exn OtherException ''rate limited'')"
    by (simp add: search_web_body_def)
  have 3: "manage_notes_body None ''clear'' None = (None, Inl notes_memory_undefined)"
    by (simp add: manage_notes_body_def)
  from t 1 have a: "get_weather (\<lambda>url. Inl (Exn OtherException ''connection refused'')) ''Paris''
     = Inr (''An error occurred while retrieving weather for '' @ ''Paris'' @ ''.'')"
    by blast
  from t 2 have b: "search_web (\<lambda>q. Inl (Exn OtherException ''rate limited'')) ''cats'' =
     Inr (''An error occurred while searching the web for '' @ sq @ ''cats'' @ sq @ ''.'')"
    by blast
  from t example_mail_env_login
  have c: "send_email example_mail_env ''you@example.com'' ''Hi'' ''Hello'' None =
     ([Connect ''smtp.gmail.com'' 587, StartTLS, Login ''me@gmail.com'' ''secret''],
      Inr (email_failure (Exn SMTPAuthenticationError ''(535, bad credentials)'')))"
    by blast
  from t 3 have d: "manage_notes None ''clear'' None =
     (None, Inr (cross_mark @ '' Error managing notes: '' @ str_exn notes_memory_undefined))"
    by blast
  from t example_missing_roster
  have e: "create_tool \<lparr>tools_py = None, agent_py = None\<rparr> ''get_joke'' ''Tell a joke''
        (Some ''https://api.example.com/v1/data'') None None =
     (last [\<lparr>tools_py = None, agent_py = None\<rparr>,
        \<lparr>tools_py = Some \<lparr>content = [], readable = True, writable = True\<rparr>, agent_py = None\<rparr>,
        \<lparr>tools_py = Some \<lparr>content = render_template ''get_joke'' ''Tell a joke''
              ''https://api.example.com/v1/data'' ''None'' ''api.example.com'' @ nl,
            readable = True, writable = True\<rparr>, agent_py = None\<rparr>],
      Inr (cross_mark @ '' Failed to create function: '' @ str_exn (no_such_file ''agent.py'')))"
    by blast
  from a b c d e show ?thesis
    by (simp add: notes_memory_undefined_def no_such_file_def email_failure_def)
qed

end
